theory Spec2Isabelle
  imports Complex_Main "HOL-Library.AList"
begin

section \<open>Python values shared by the modules\<close>

text \<open>
  Python floats are modelled by the real numbers they denote and Python ints by \<open>int\<close>.
  Every exception a modelled line can raise is a value of \<open>py_error\<close>.
\<close>

datatype py_error = KeyError | ValueError | IndexError | ZeroDivisionError
  | AttributeError | TypeError

text \<open>A statistics entry \<^verbatim>\<open>{"win": w, "trials": t}\<close>.\<close>

record stat =
  win :: int
  trials :: int

text \<open>A dict is an association list in insertion order with distinct keys;
  \<open>map_of\<close> is the lookup and \<open>AList.update\<close> the item assignment
  (an existing key keeps its position, a new key goes to the end).\<close>

type_synonym stats = "(string \<times> stat) list"

text \<open>\<^verbatim>\<open>a / b\<close> on ints: true division, raising on a zero divisor.\<close>

definition py_truediv :: "int \<Rightarrow> int \<Rightarrow> py_error + real" where
  "py_truediv a b = (if b = 0 then Inl ZeroDivisionError else Inr (real_of_int a / real_of_int b))"

section \<open>core/gie_mind.py: the effectiveness lookup\<close>

text \<open>
  \<^verbatim>\<open>
  def get_effectiveness(self, engine_name):
      stat = self.stats[engine_name]
      return stat["win"] / stat["trials"] if stat["trials"] else 0.0
  \<close>
\<close>

definition get_effectiveness :: "stats \<Rightarrow> string \<Rightarrow> py_error + real" where
  "get_effectiveness sts engine_name =
     (case map_of sts engine_name of
        None \<Rightarrow> Inl KeyError
      | Some st \<Rightarrow> (if trials st \<noteq> 0 then py_truediv (win st) (trials st) else Inr 0))"

section \<open>core/strategy_evolver.py: registration of a new engine\<close>

text \<open>
  Lines 75 to 77 of \<^verbatim>\<open>StrategyEvolver.evolve\<close>, with the freshly built key
  \<^verbatim>\<open>new_key\<close> and engine given:
  \<^verbatim>\<open>
  self.engines[new_key] = new_engine
  self.stats[new_key] = {'win': 0, 'trials': 0}
  \<close>
\<close>

definition evolve_register ::
  "(string \<times> 'e) list \<Rightarrow> stats \<Rightarrow> string \<Rightarrow> 'e \<Rightarrow> (string \<times> 'e) list \<times> stats" where
  "evolve_register engines sts new_key new_engine =
     (AList.update new_key new_engine engines,
      AList.update new_key \<lparr>win = 0, trials = 0\<rparr> sts)"

section \<open>core/meta_reflection.py: the contextual performance memory\<close>

text \<open>
  \<^verbatim>\<open>int(x)\<close> on a float truncates towards zero.
\<close>

definition py_int :: "real \<Rightarrow> int" where
  "py_int x = (if 0 \<le> x then \<lfloor>x\<rfloor> else \<lceil>x\<rceil>)"

text \<open>
  \<^verbatim>\<open>round(x, 1)\<close>: the nearest multiple of one tenth, a tie going to the even
  neighbour. The float that Python returns is identified with that decimal.
\<close>

definition round_half_even :: "real \<Rightarrow> int" where
  "round_half_even y =
     (let f = \<lfloor>y\<rfloor>; d = y - of_int f
      in if d < 1 / 2 then f else if 1 / 2 < d then f + 1 else if even f then f else f + 1)"

definition round1 :: "real \<Rightarrow> real" where
  "round1 x = of_int (round_half_even (x * 10)) / 10"

text \<open>\<^verbatim>\<open>d.get(k, default)\<close>\<close>

definition dict_get :: "('k \<times> 'v) list \<Rightarrow> 'k \<Rightarrow> 'v \<Rightarrow> 'v" where
  "dict_get d k dflt = (case map_of d k of Some v \<Rightarrow> v | None \<Rightarrow> dflt)"

text \<open>
  Both \<^verbatim>\<open>update\<close> and \<^verbatim>\<open>suggest\<close> reduce an environment dict to the same
  triple of quantised readings:
  \<^verbatim>\<open>
  noise = round(env.get("noise", 0), 1)
  pressure = round(env.get("pressure", 0), 1)
  volume = round(env.get("volume", 0), 1)
  \<close>
\<close>

type_synonym env = "(string \<times> real) list"
type_synonym ctxt = "real \<times> real \<times> real"

definition fingerprint :: "env \<Rightarrow> ctxt" where
  "fingerprint e =
     (round1 (dict_get e ''noise'' 0),
      round1 (dict_get e ''pressure'' 0),
      round1 (dict_get e ''volume'' 0))"

text \<open>\<^verbatim>\<open>self.knowledge\<close>: keys \<^verbatim>\<open>(engine, noise, pressure, volume)\<close>.\<close>

type_synonym 'e knowledge = "(('e \<times> ctxt) \<times> stat) list"

text \<open>A history record \<^verbatim>\<open>{"env": ..., "engine": ..., "score": ...}\<close>; a missing
  \<^verbatim>\<open>env\<close> is the empty dict and a missing \<^verbatim>\<open>score\<close> is 0.\<close>

record 'e history_record =
  h_env :: env
  h_engine :: 'e
  h_score :: real

text \<open>
  The first loop of \<^verbatim>\<open>update\<close>:
  \<^verbatim>\<open>
  key = (engine, noise, pressure, volume)
  win = 1 if record.get("score", 0) else 0
  if key not in correlations:
      correlations[key] = {"win": 0, "trials": 0}
  correlations[key]["win"] += win
  correlations[key]["trials"] += 1
  \<close>
\<close>

fun correlate :: "'e history_record list \<Rightarrow> 'e knowledge \<Rightarrow> 'e knowledge" where
  "correlate [] correlations = correlations"
| "correlate (r # rs) correlations =
     (let key = (h_engine r, fingerprint (h_env r));
          w = (if h_score r \<noteq> 0 then 1 else 0);
          cur = (case map_of correlations key of
                   None \<Rightarrow> \<lparr>win = 0, trials = 0\<rparr> | Some s \<Rightarrow> s)
      in correlate rs
           (AList.update key \<lparr>win = win cur + w, trials = trials cur + 1\<rparr> correlations))"

text \<open>
  The second loop of \<^verbatim>\<open>update\<close>:
  \<^verbatim>\<open>
  if k in self.knowledge:
      prev = self.knowledge[k]
      prev_trials = prev["trials"] + v["trials"]
      prev_win = prev["win"] + v["win"]
      self.knowledge[k] = {
          "win": int(prev_win * self.adaptivity + v["win"] * (1 - self.adaptivity)),
          "trials": int(prev_trials * self.adaptivity + v["trials"] * (1 - self.adaptivity))}
  else:
      self.knowledge[k] = v
  \<close>
\<close>

definition blend :: "real \<Rightarrow> stat \<Rightarrow> stat \<Rightarrow> stat" where
  "blend adaptivity prev v =
     (let prev_trials = trials prev + trials v;
          prev_win = win prev + win v
      in \<lparr>win = py_int (of_int prev_win * adaptivity + of_int (win v) * (1 - adaptivity)),
          trials = py_int (of_int prev_trials * adaptivity
                           + of_int (trials v) * (1 - adaptivity))\<rparr>)"

fun learn :: "real \<Rightarrow> 'e knowledge \<Rightarrow> 'e knowledge \<Rightarrow> 'e knowledge" where
  "learn adaptivity kn [] = kn"
| "learn adaptivity kn ((k, v) # correlations) =
     learn adaptivity
       (case map_of kn k of
          Some prev \<Rightarrow> AList.update k (blend adaptivity prev v) kn
        | None \<Rightarrow> AList.update k v kn)
       correlations"

text \<open>\<^verbatim>\<open>update\<close> looks at the last 100 records, \<^verbatim>\<open>history[-100:]\<close>, and ends by
  pickling \<^verbatim>\<open>self.memory\<close>, which is not part of the knowledge.\<close>

definition update :: "real \<Rightarrow> 'e knowledge \<Rightarrow> 'e history_record list \<Rightarrow> 'e knowledge" where
  "update adaptivity kn history =
     learn adaptivity kn (correlate (drop (length history - 100) history) [])"

text \<open>
  \<^verbatim>\<open>
  def merge_knowledge(self, remote_knowledge):
      for k, v in remote_knowledge.items():
          if k in self.knowledge:
              prev = self.knowledge[k]
              trials = prev["trials"] + v["trials"]
              win = prev["win"] + v["win"]
              self.knowledge[k] = {
                  "win": int(win * 0.5 + prev["win"] * 0.5),
                  "trials": int(trials * 0.5 + prev["trials"] * 0.5)}
          else:
              self.knowledge[k] = v
      self.save_memory()
  \<close>
  The method has no other parameter and keeps no record of earlier merges.
  \<^verbatim>\<open>save_memory\<close> pickles \<^verbatim>\<open>self.memory\<close>, which is not part of the knowledge.
\<close>

definition merge_entry :: "stat \<Rightarrow> stat \<Rightarrow> stat" where
  "merge_entry prev v =
     (let trials' = trials prev + trials v;
          win' = win prev + win v
      in \<lparr>win = py_int (of_int win' * 0.5 + of_int (win prev) * 0.5),
          trials = py_int (of_int trials' * 0.5 + of_int (trials prev) * 0.5)\<rparr>)"

fun merge_knowledge :: "'e knowledge \<Rightarrow> 'e knowledge \<Rightarrow> 'e knowledge" where
  "merge_knowledge kn [] = kn"
| "merge_knowledge kn ((k, v) # remote_knowledge) =
     merge_knowledge
       (case map_of kn k of
          Some prev \<Rightarrow> AList.update k (merge_entry prev v) kn
        | None \<Rightarrow> AList.update k v kn)
       remote_knowledge"

text \<open>
  \<^verbatim>\<open>max(candidates, key=...)\<close> keeps the first of several maximal elements.
\<close>

fun py_max_key :: "('a \<Rightarrow> 'b::linorder) \<Rightarrow> 'a \<Rightarrow> 'a list \<Rightarrow> 'a" where
  "py_max_key f best [] = best"
| "py_max_key f best (x # xs) = py_max_key f (if f best < f x then x else best) xs"

text \<open>
  \<^verbatim>\<open>
  def suggest(self, env):
      noise = round(env.get("noise", 0), 1)
      pressure = round(env.get("pressure", 0), 1)
      volume = round(env.get("volume", 0), 1)
      candidates = []
      for (engine, n, p, v), stats in self.knowledge.items():
          if abs(n - noise) <= 0.2 and abs(p - pressure) <= 0.2 and abs(v - volume) <= 0.2:
              if stats["trials"] > 3:
                  eff = stats["win"] / max(1, stats["trials"])
                  candidates.append((eff, engine))
      if candidates:
          if random.random() < self.curiosity:
              return random.choice(candidates)[1]
          else:
              return max(candidates, key=lambda x: x[0])[1]
      return None
  \<close>
  The two random draws are inputs: \<open>r\<close> is the value of \<^verbatim>\<open>random.random()\<close>, in
  \<open>[0, 1)\<close>, and \<open>pick\<close> the index chosen by \<^verbatim>\<open>random.choice\<close>.
\<close>

text \<open>
  The tolerance test \<^verbatim>\<open>abs(n - noise) <= 0.2\<close> is computed on floats, and the result of
  the subtraction is rounded: \<^verbatim>\<open>abs(0.3 - 0.1) <= 0.2\<close> holds and
  \<^verbatim>\<open>abs(1.1 - 0.9) <= 0.2\<close> does not. \<open>float_of\<close> is the binary64 number nearest to a
  real, a tie going to the even mantissa (exponent range unbounded): the position of the
  leading bit gives the exponent, and the value is rounded to 53 significant bits. It
  turns a quantised reading, kept as a decimal, into the float that Python holds, and it
  rounds the difference.
\<close>

fun bit_length :: "nat \<Rightarrow> nat" where
  "bit_length n = (if n = 0 then 0 else Suc (bit_length (n div 2)))"

declare bit_length.simps [simp del]

definition pow2 :: "int \<Rightarrow> real" where
  "pow2 k = (if 0 \<le> k then 2 ^ nat k else 1 / 2 ^ nat (- k))"

definition float_exponent :: "real \<Rightarrow> int" where
  "float_exponent x =
     (if 1 \<le> \<bar>x\<bar> then int (bit_length (nat \<lfloor>\<bar>x\<bar>\<rfloor>)) - 1
      else - int (bit_length (nat (\<lceil>1 / \<bar>x\<bar>\<rceil> - 1))))"

definition float_of :: "real \<Rightarrow> real" where
  "float_of x =
     (if x = 0 then 0
      else let ulp = pow2 (float_exponent x - 52)
           in of_int (round_half_even (x / ulp)) * ulp)"

definition within_tolerance :: "real \<Rightarrow> real \<Rightarrow> bool" where
  "within_tolerance a b = (\<bar>float_of (float_of a - float_of b)\<bar> \<le> float_of 0.2)"

definition qualifies :: "ctxt \<Rightarrow> ('e \<times> ctxt) \<times> stat \<Rightarrow> bool" where
  "qualifies c item =
     (case (c, item) of ((noise, pressure, volume), ((engine, n, p, v), stats)) \<Rightarrow>
        within_tolerance n noise \<and> within_tolerance p pressure \<and> within_tolerance v volume
        \<and> 3 < trials stats)"

text \<open>\<^verbatim>\<open>eff = stats["win"] / max(1, stats["trials"])\<close>: the quotient of two ints, rounded
  to the nearest float.\<close>

definition eff_of :: "stat \<Rightarrow> real" where
  "eff_of stats = float_of (of_int (win stats) / of_int (max 1 (trials stats)))"

definition candidates :: "'e knowledge \<Rightarrow> env \<Rightarrow> (real \<times> 'e) list" where
  "candidates kn e =
     map (\<lambda>item. (eff_of (snd item), fst (fst item)))
       (filter (qualifies (fingerprint e)) kn)"

definition suggest :: "'e knowledge \<Rightarrow> real \<Rightarrow> env \<Rightarrow> real \<Rightarrow> nat \<Rightarrow> 'e option" where
  "suggest kn curiosity e r pick =
     (case candidates kn e of
        [] \<Rightarrow> None
      | c # cs \<Rightarrow>
          if r < curiosity then Some (snd ((c # cs) ! (pick mod length (c # cs))))
          else Some (snd (py_max_key fst c cs)))"

section \<open>core/gie_mind.py: the state of a GieMind\<close>

text \<open>
  What the logger receives is kept as a list of lines, one constructor per message, so
  that the calls made on a GieMind can be read off its state.
\<close>

datatype log_line =
    Krok nat nat
  | EnvRead
  | MetaWybor string
  | HighHungerCuriosity
  | OutsideManifest
  | CloneSelf
  | ReduceExposure real
  | LimitOpenTrades int
  | CloseGridPositions int
  | EmergencyMarginAction
  | AdaptGridOnTrendRisk

text \<open>
  The attributes that \<^verbatim>\<open>GieMind.__init__\<close> assigns and the methods below read or write.
  \<open>engines\<close> holds the class names of the engine objects; \<open>knowledge\<close> and
  \<open>reflection_curiosity\<close> are the \<^verbatim>\<open>knowledge\<close> and \<^verbatim>\<open>curiosity\<close> of
  \<^verbatim>\<open>self.meta_reflection\<close>. The class assigns no attribute \<^verbatim>\<open>curiosity_threshold\<close>
  and no attribute \<^verbatim>\<open>suspended\<close>.
\<close>

record gie_mind =
  stats :: stats
  engines :: "string list"
  knowledge :: "string knowledge"
  reflection_curiosity :: real
  hunger :: real
  satisfaction :: real
  curiosity :: real
  hunger_threshold :: real
  satisfaction_threshold :: real
  hunger_increment :: real
  curiosity_increment :: real
  satisfaction_increment :: real
  logged :: "log_line list"

text \<open>The state after \<^verbatim>\<open>__init__\<close> for the given engine class names, when no
  pickled statistics are loaded.\<close>

definition init_gie_mind :: "string list \<Rightarrow> gie_mind" where
  "init_gie_mind es =
     \<lparr>stats = fold (\<lambda>e sts. AList.update e \<lparr>win = 0, trials = 1\<rparr> sts) es [],
      engines = es, knowledge = [], reflection_curiosity = 0.5,
      hunger = 1.0, satisfaction = 0.1, curiosity = 0.8,
      hunger_threshold = 0.8, satisfaction_threshold = 0.8,
      hunger_increment = 0.1, curiosity_increment = 0.05, satisfaction_increment = 0.1,
      logged = []\<rparr>"

text \<open>
  A method that raises after it has changed the object returns the raised exception
  together with the changed state; \<open>None\<close> is a normal return.

  \<^verbatim>\<open>
  def update_internal_state(self, reward):
      if reward > 0.5:
          self.satisfaction = min(1.0, self.satisfaction + self.satisfaction_increment)
          self.hunger = max(0.0, self.hunger - self.hunger_increment)
      elif reward < 0.2:
          self.curiosity = min(1.0, self.curiosity + self.curiosity_increment)
          self.hunger = min(1.0, self.hunger + 0.02)
      else:
          self.satisfaction = max(0.0, self.satisfaction - self.satisfaction_increment)
          self.curiosity = min(1.0, self.curiosity + 0.01)
      if self.satisfaction > self.hunger_threshold or self.curiosity > self.curiosity_threshold:
          self.log_event("[GIE META] ...")
          self.evolver.auto_evolve()
  \<close>
  When the first comparison is false the second one reads the attribute that does not
  exist (AttributeError). When it is true the body builds \<^verbatim>\<open>StrategyEvolver()\<close> without
  its two required arguments (TypeError). Either way the method raises.
\<close>

definition update_internal_state :: "gie_mind \<Rightarrow> real \<Rightarrow> py_error option \<times> gie_mind" where
  "update_internal_state m reward =
     (let m1 =
        (if 0.5 < reward then
           m\<lparr>satisfaction := min 1 (satisfaction m + satisfaction_increment m),
             hunger := max 0 (hunger m - hunger_increment m)\<rparr>
         else if reward < 0.2 then
           m\<lparr>curiosity := min 1 (curiosity m + curiosity_increment m),
             hunger := min 1 (hunger m + 0.02)\<rparr>
         else
           m\<lparr>satisfaction := max 0 (satisfaction m - satisfaction_increment m),
             curiosity := min 1 (curiosity m + 0.01)\<rparr>)
      in if hunger_threshold m1 < satisfaction m1
         then (Some TypeError, m1\<lparr>logged := logged m1 @ [HighHungerCuriosity]\<rparr>)
         else (Some AttributeError, m1))"

text \<open>
  \<^verbatim>\<open>
  def receive_feedback(self, engine, success):
      name = engine.__class__.__name__
      reward = 1 if success else 0
      self.stats[name]["win"] += reward
      self.stats[name]["trials"] += 1
      self.update_internal_state(reward)
      self.save_stats()
  \<close>
  The engine is passed by its class name. \<^verbatim>\<open>save_stats\<close> pickles the statistics to
  disk and changes no attribute.
\<close>

definition receive_feedback :: "gie_mind \<Rightarrow> string \<Rightarrow> bool \<Rightarrow> py_error option \<times> gie_mind" where
  "receive_feedback m name success =
     (let reward = (if success then 1 else 0) in
      case map_of (stats m) name of
        None \<Rightarrow> (Some KeyError, m)
      | Some st \<Rightarrow>
          update_internal_state
            (m\<lparr>stats := AList.update name
                   \<lparr>win = win st + reward, trials = trials st + 1\<rparr> (stats m)\<rparr>)
            (of_int reward))"

text \<open>\<open>n\<close> calls of \<^verbatim>\<open>receive_feedback(engine, True)\<close> by a caller that catches what
  each call raises.\<close>

fun record_successes :: "nat \<Rightarrow> string \<Rightarrow> gie_mind \<Rightarrow> gie_mind" where
  "record_successes 0 name m = m"
| "record_successes (Suc n) name m = record_successes n name (snd (receive_feedback m name True))"

text \<open>The value that \<^verbatim>\<open>get_effectiveness\<close> reports for an entry after \<open>n\<close> more
  successes have been counted on it.\<close>

definition success_ratio :: "stat \<Rightarrow> nat \<Rightarrow> real" where
  "success_ratio st n =
     (if trials st + int n = 0 then 0
      else real_of_int (win st + int n) / real_of_int (trials st + int n))"

section \<open>core/gie_hive.py: the population of agents\<close>

text \<open>
  The hive owns the list \<^verbatim>\<open>self.agents\<close>. \<^verbatim>\<open>GieHive.__init__\<close> raises TypeError
  before it assigns the list, because \<^verbatim>\<open>Logger\<close> has no parameter \<^verbatim>\<open>path\<close>, so the
  population of a hive is taken as it is found. The agent methods
  \<^verbatim>\<open>get_performance_metric\<close>, \<^verbatim>\<open>clone\<close> and \<^verbatim>\<open>act\<close> are parameters that may
  raise: GieMind defines none of them, and on a GieMind each call raises AttributeError.
\<close>

definition gie_mind_get_performance_metric :: "gie_mind \<Rightarrow> py_error + real" where
  "gie_mind_get_performance_metric m = Inl AttributeError"

definition gie_mind_clone :: "gie_mind \<Rightarrow> py_error + gie_mind" where
  "gie_mind_clone m = Inl AttributeError"

definition gie_mind_act :: "gie_mind \<Rightarrow> py_error option \<times> gie_mind" where
  "gie_mind_act m = (Some AttributeError, m)"

text \<open>
  \<^verbatim>\<open>
  def add_agent(self):
      i = len(self.agents) + 1
      data_dir = ...
      agent = GieMind(self.market_data_manager, Logger(path=os.path.join(data_dir, f"gie_log_{i}.txt")))
      self.agents.append(agent)

  def remove_agent(self, idx):
      if 0 <= idx < len(self.agents):
          del self.agents[idx]

  def clone_agent(self, idx):
      agent = self.agents[idx]
      new_agent = agent.clone()
      self.agents.append(new_agent)
  \<close>
  \<^verbatim>\<open>add_agent\<close> raises TypeError at the \<^verbatim>\<open>Logger(path=...)\<close> call, before the append.
  A method that raises returns the exception together with the population it leaves.
\<close>

definition add_agent :: "gie_mind list \<Rightarrow> py_error option \<times> gie_mind list" where
  "add_agent agents = (Some TypeError, agents)"

definition remove_agent :: "int \<Rightarrow> gie_mind list \<Rightarrow> gie_mind list" where
  "remove_agent idx agents =
     (if 0 \<le> idx \<and> idx < int (length agents)
      then take (nat idx) agents @ drop (Suc (nat idx)) agents
      else agents)"

definition clone_agent ::
  "(gie_mind \<Rightarrow> py_error + gie_mind) \<Rightarrow> nat \<Rightarrow> gie_mind list
     \<Rightarrow> py_error option \<times> gie_mind list" where
  "clone_agent clone idx agents =
     (if idx < length agents
      then (case clone (agents ! idx) of
              Inl err \<Rightarrow> (Some err, agents)
            | Inr new_agent \<Rightarrow> (None, agents @ [new_agent]))
      else (Some IndexError, agents))"

text \<open>
  \<^verbatim>\<open>
  def share_knowledge(self):
      base_hunger = sum(a.hunger for a in self.agents) / len(self.agents)
      base_satisfaction = sum(getattr(a, "satisfaction", 0) for a in self.agents) / len(self.agents)
      for agent in self.agents:
          agent.hunger = (agent.hunger + base_hunger) / 2
          if hasattr(agent, "satisfaction"):
              agent.satisfaction = (agent.satisfaction + base_satisfaction) / 2
  \<close>
\<close>

definition share_knowledge :: "gie_mind list \<Rightarrow> py_error option \<times> gie_mind list" where
  "share_knowledge agents =
     (if agents = [] then (Some ZeroDivisionError, agents)
      else
        let base_hunger = sum_list (map hunger agents) / real (length agents);
            base_satisfaction = sum_list (map satisfaction agents) / real (length agents)
        in (None, map (\<lambda>agent. agent\<lparr>hunger := (hunger agent + base_hunger) / 2,
                                    satisfaction := (satisfaction agent + base_satisfaction) / 2\<rparr>)
                    agents))"

text \<open>\<^verbatim>\<open>max(xs)\<close>, \<^verbatim>\<open>min(xs)\<close> and \<^verbatim>\<open>xs.index(v)\<close>, each raising ValueError
  where Python does.\<close>

fun py_max :: "real list \<Rightarrow> py_error + real" where
  "py_max [] = Inl ValueError"
| "py_max (x # xs) = Inr (fold max xs x)"

fun py_min :: "real list \<Rightarrow> py_error + real" where
  "py_min [] = Inl ValueError"
| "py_min (x # xs) = Inr (fold min xs x)"

fun py_index :: "'a list \<Rightarrow> 'a \<Rightarrow> py_error + nat" where
  "py_index [] v = Inl ValueError"
| "py_index (x # xs) v =
     (if x = v then Inr 0
      else case py_index xs v of Inl e \<Rightarrow> Inl e | Inr i \<Rightarrow> Inr (Suc i))"

text \<open>The list comprehension
  \<^verbatim>\<open>[agent.get_performance_metric() for agent in self.agents]\<close>: the first call that
  raises ends it.\<close>

fun performances_of ::
  "(gie_mind \<Rightarrow> py_error + real) \<Rightarrow> gie_mind list \<Rightarrow> py_error + real list" where
  "performances_of get_performance_metric [] = Inr []"
| "performances_of get_performance_metric (agent # agents) =
     (case get_performance_metric agent of
        Inl err \<Rightarrow> Inl err
      | Inr p \<Rightarrow> (case performances_of get_performance_metric agents of
                    Inl err \<Rightarrow> Inl err
                  | Inr ps \<Rightarrow> Inr (p # ps)))"

text \<open>
  \<^verbatim>\<open>
  def meta_reflection(self):
      performances = [agent.get_performance_metric() for agent in self.agents]
      best_idx = performances.index(max(performances))
      worst_idx = performances.index(min(performances))
      if len(self.agents) < 20:
          self.clone_agent(best_idx)
      if len(self.agents) > 5:
          self.remove_agent(worst_idx)
      self.share_knowledge()
  \<close>
  The two guarded statements are \<open>clone_phase\<close> and \<open>retire_phase\<close>; the population
  can be observed before, between and after them, and after an exception.
\<close>

definition clone_phase ::
  "(gie_mind \<Rightarrow> py_error + gie_mind) \<Rightarrow> nat \<Rightarrow> gie_mind list
     \<Rightarrow> py_error option \<times> gie_mind list" where
  "clone_phase clone best_idx agents =
     (if length agents < 20 then clone_agent clone best_idx agents else (None, agents))"

definition retire_phase :: "nat \<Rightarrow> gie_mind list \<Rightarrow> gie_mind list" where
  "retire_phase worst_idx agents =
     (if 5 < length agents then remove_agent (int worst_idx) agents else agents)"

definition meta_reflection ::
  "(gie_mind \<Rightarrow> py_error + real) \<Rightarrow> (gie_mind \<Rightarrow> py_error + gie_mind) \<Rightarrow> gie_mind list
     \<Rightarrow> py_error option \<times> gie_mind list" where
  "meta_reflection get_performance_metric clone agents =
     (case performances_of get_performance_metric agents of
        Inl err \<Rightarrow> (Some err, agents)
      | Inr performances \<Rightarrow>
     (case py_max performances of Inl err \<Rightarrow> (Some err, agents) | Inr best \<Rightarrow>
     (case py_index performances best of Inl err \<Rightarrow> (Some err, agents) | Inr best_idx \<Rightarrow>
     (case py_min performances of Inl err \<Rightarrow> (Some err, agents) | Inr worst \<Rightarrow>
     (case py_index performances worst of Inl err \<Rightarrow> (Some err, agents) | Inr worst_idx \<Rightarrow>
     (case clone_phase clone best_idx agents of
        (Some err, agents1) \<Rightarrow> (Some err, agents1)
      | (None, agents1) \<Rightarrow> share_knowledge (retire_phase worst_idx agents1)))))))"

text \<open>
  \<^verbatim>\<open>
  def run_all(self, n_cycles=100):
      for cycle in range(n_cycles):
          for idx, agent in enumerate(self.agents):
              agent.act()
          self.meta_reflection()
  \<close>
  \<^verbatim>\<open>act\<close> changes the agent in place and may raise.
\<close>

fun act_all ::
  "(gie_mind \<Rightarrow> py_error option \<times> gie_mind) \<Rightarrow> gie_mind list
     \<Rightarrow> py_error option \<times> gie_mind list" where
  "act_all act [] = (None, [])"
| "act_all act (agent # agents) =
     (case act agent of
        (Some err, agent') \<Rightarrow> (Some err, agent' # agents)
      | (None, agent') \<Rightarrow>
          (case act_all act agents of (res, agents') \<Rightarrow> (res, agent' # agents')))"

fun run_all ::
  "(gie_mind \<Rightarrow> py_error option \<times> gie_mind) \<Rightarrow> (gie_mind \<Rightarrow> py_error + real) \<Rightarrow>
   (gie_mind \<Rightarrow> py_error + gie_mind) \<Rightarrow> nat \<Rightarrow> gie_mind list
     \<Rightarrow> py_error option \<times> gie_mind list" where
  "run_all act get_performance_metric clone 0 agents = (None, agents)"
| "run_all act get_performance_metric clone (Suc n_cycles) agents =
     (case act_all act agents of
        (Some err, agents1) \<Rightarrow> (Some err, agents1)
      | (None, agents1) \<Rightarrow>
          (case meta_reflection get_performance_metric clone agents1 of
             (Some err, agents2) \<Rightarrow> (Some err, agents2)
           | (None, agents2) \<Rightarrow> run_all act get_performance_metric clone n_cycles agents2))"

section \<open>core/gie_mind.py: the control loop\<close>

text \<open>
  \<^verbatim>\<open>
  def choose_engine(self, environment):
      suggested = self.meta_reflection.suggest(environment)
      if suggested:
          self.logger.log(f"META-wybor: {suggested.__class__.__name__}")
          best = max(self.engines, key=lambda e: self.get_effectiveness(e.__class__.__name__))
          return best
  \<close>
  Without a suggestion the method returns \<^verbatim>\<open>None\<close>. \<^verbatim>\<open>max\<close> evaluates the key of
  every engine in order, so the first engine without statistics raises KeyError, and an
  empty engine list raises ValueError. The random draws of \<^verbatim>\<open>suggest\<close> are inputs.
\<close>

fun keyed_engines :: "stats \<Rightarrow> string list \<Rightarrow> py_error + (real \<times> string) list" where
  "keyed_engines sts [] = Inr []"
| "keyed_engines sts (e # es) =
     (case get_effectiveness sts e of
        Inl err \<Rightarrow> Inl err
      | Inr k \<Rightarrow> (case keyed_engines sts es of
                    Inl err \<Rightarrow> Inl err
                  | Inr ks \<Rightarrow> Inr ((k, e) # ks)))"

definition choose_engine ::
  "gie_mind \<Rightarrow> env \<Rightarrow> real \<Rightarrow> nat \<Rightarrow> (py_error + string option) \<times> gie_mind" where
  "choose_engine m environment r choice =
     (case suggest (knowledge m) (reflection_curiosity m) environment r choice of
        None \<Rightarrow> (Inr None, m)
      | Some suggested \<Rightarrow>
          let m1 = m\<lparr>logged := logged m @ [MetaWybor suggested]\<rparr> in
          case keyed_engines (stats m1) (engines m1) of
            Inl err \<Rightarrow> (Inl err, m1)
          | Inr [] \<Rightarrow> (Inl ValueError, m1)
          | Inr (c # cs) \<Rightarrow> (Inr (Some (snd (py_max_key fst c cs))), m1))"

text \<open>
  \<^verbatim>\<open>
  def reflect(self, engine, success):
      if hasattr(self, "manifest"):
          if not self.manifest.check_action(engine.__class__.__name__):
              self.logger.log(f"[GIE META] UWAGA: Akcja poza manifestem")
  \<close>
  The manifest's \<^verbatim>\<open>check_action\<close> is a parameter.
\<close>

definition reflect :: "(string \<Rightarrow> bool) \<Rightarrow> gie_mind \<Rightarrow> string \<Rightarrow> gie_mind" where
  "reflect check_action m name =
     (if \<not> check_action name then m\<lparr>logged := logged m @ [OutsideManifest]\<rparr> else m)"

text \<open>
  What one step takes from outside: the environment that \<^verbatim>\<open>read_environment\<close>
  returns and the three random draws.
\<close>

record step_input =
  in_environment :: env
  in_explore :: real
  in_choice :: nat
  in_success :: real

text \<open>
  The body of the inner loop of \<^verbatim>\<open>run\<close>:
  \<^verbatim>\<open>
  self.logger.log(f"[GIE META] KROK {i+1} (run={run_nr+1})")
  environment = self.read_environment()
  engine = self.choose_engine(environment)
  success = random.random() < self.get_effectiveness(engine.__class__.__name__)
  self.receive_feedback(engine, success)
  self.reflect(engine, success)
  \<close>
  \<^verbatim>\<open>read_environment\<close> logs the sensor values it has read. The class name of
  \<^verbatim>\<open>None\<close> is \<^verbatim>\<open>NoneType\<close>.
\<close>

definition run_step ::
  "step_input \<Rightarrow> (string \<Rightarrow> bool) \<Rightarrow> nat \<Rightarrow> nat \<Rightarrow> gie_mind \<Rightarrow> py_error option \<times> gie_mind" where
  "run_step inp check_action run_nr i m =
     (let m1 = m\<lparr>logged := logged m @ [Krok (i + 1) (run_nr + 1), EnvRead]\<rparr> in
      case choose_engine m1 (in_environment inp) (in_explore inp) (in_choice inp) of
        (Inl err, m2) \<Rightarrow> (Some err, m2)
      | (Inr engine, m2) \<Rightarrow>
          let name = (case engine of None \<Rightarrow> ''NoneType'' | Some n \<Rightarrow> n) in
          case get_effectiveness (stats m2) name of
            Inl err \<Rightarrow> (Some err, m2)
          | Inr eff \<Rightarrow>
              (case receive_feedback m2 name (in_success inp < eff) of
                 (Some err, m3) \<Rightarrow> (Some err, m3)
               | (None, m3) \<Rightarrow> (None, reflect check_action m3 name)))"

text \<open>
  \<^verbatim>\<open>
  def run(self, self_steps=100):
      for run_nr in range(3):
          for i in range(self_steps):
              ...
          self.save_stats()
          self.clone_self()
  \<close>
  An exception ends the run. \<^verbatim>\<open>clone_self\<close> writes one log line. No statement of
  \<^verbatim>\<open>run\<close> reads a flag before a step is started.
\<close>

definition clone_self :: "gie_mind \<Rightarrow> gie_mind" where
  "clone_self m = m\<lparr>logged := logged m @ [CloneSelf]\<rparr>"

fun run_steps ::
  "(nat \<Rightarrow> nat \<Rightarrow> step_input) \<Rightarrow> (string \<Rightarrow> bool) \<Rightarrow> nat \<Rightarrow> nat \<Rightarrow> nat \<Rightarrow> gie_mind
     \<Rightarrow> py_error option \<times> gie_mind" where
  "run_steps inputs check_action run_nr i 0 m = (None, m)"
| "run_steps inputs check_action run_nr i (Suc k) m =
     (case run_step (inputs run_nr i) check_action run_nr i m of
        (Some err, m') \<Rightarrow> (Some err, m')
      | (None, m') \<Rightarrow> run_steps inputs check_action run_nr (Suc i) k m')"

fun run_cycles ::
  "(nat \<Rightarrow> nat \<Rightarrow> step_input) \<Rightarrow> (string \<Rightarrow> bool) \<Rightarrow> nat \<Rightarrow> nat \<Rightarrow> nat \<Rightarrow> gie_mind
     \<Rightarrow> py_error option \<times> gie_mind" where
  "run_cycles inputs check_action self_steps run_nr 0 m = (None, m)"
| "run_cycles inputs check_action self_steps run_nr (Suc c) m =
     (case run_steps inputs check_action run_nr 0 self_steps m of
        (Some err, m') \<Rightarrow> (Some err, m')
      | (None, m') \<Rightarrow>
          run_cycles inputs check_action self_steps (Suc run_nr) c (clone_self m'))"

definition run ::
  "(nat \<Rightarrow> nat \<Rightarrow> step_input) \<Rightarrow> (string \<Rightarrow> bool) \<Rightarrow> nat \<Rightarrow> gie_mind
     \<Rightarrow> py_error option \<times> gie_mind" where
  "run inputs check_action self_steps m = run_cycles inputs check_action self_steps 0 3 m"

text \<open>
  The adapters that the guardian calls on a GieMind. The five queries return fixed
  values and the five actions write one log line each:
  \<^verbatim>\<open>
  def get_total_capital(self): return 100000.0
  def get_equity(self): return 98765.0
  def get_open_trades(self): return []
  def get_open_grids(self): return []
  def get_margin_level(self):
      margin = self.get_equity() / 5000
      return self.get_equity() / margin if margin else 1.0
  def predict_trend(self, self_grid): return {"risk_of_runaway": False}
  def reduce_exposure(self, target_dd): self.logger.log(...)
  def limit_open_trades(self, max_trades): self.logger.log(...)
  def close_riskiest_grid_positions(self, self_grid, keep=7): self.logger.log(...)
  def emergency_margin_action(self): self.logger.log(...)
  def adapt_grid_on_trend_risk(self, self_grid, predicted): self.logger.log(...)
  \<close>
  A grid is given by the number of its positions.
\<close>

definition get_total_capital :: "gie_mind \<Rightarrow> real" where
  "get_total_capital m = 100000"

definition get_equity :: "gie_mind \<Rightarrow> real" where
  "get_equity m = 98765"

definition get_open_trades :: "gie_mind \<Rightarrow> nat list" where
  "get_open_trades m = []"

definition get_open_grids :: "gie_mind \<Rightarrow> nat list" where
  "get_open_grids m = []"

definition get_margin_level :: "gie_mind \<Rightarrow> real" where
  "get_margin_level m =
     (let margin = get_equity m / 5000 in if margin \<noteq> 0 then get_equity m / margin else 1)"

definition predict_trend :: "gie_mind \<Rightarrow> nat \<Rightarrow> bool" where
  "predict_trend m grid = False"

definition reduce_exposure :: "real \<Rightarrow> gie_mind \<Rightarrow> gie_mind" where
  "reduce_exposure target_dd m = m\<lparr>logged := logged m @ [ReduceExposure target_dd]\<rparr>"

definition limit_open_trades :: "int \<Rightarrow> gie_mind \<Rightarrow> gie_mind" where
  "limit_open_trades max_trades m = m\<lparr>logged := logged m @ [LimitOpenTrades max_trades]\<rparr>"

definition close_riskiest_grid_positions :: "nat \<Rightarrow> int \<Rightarrow> gie_mind \<Rightarrow> gie_mind" where
  "close_riskiest_grid_positions grid keep m = m\<lparr>logged := logged m @ [CloseGridPositions keep]\<rparr>"

definition emergency_margin_action :: "gie_mind \<Rightarrow> gie_mind" where
  "emergency_margin_action m = m\<lparr>logged := logged m @ [EmergencyMarginAction]\<rparr>"

definition adapt_grid_on_trend_risk :: "nat \<Rightarrow> gie_mind \<Rightarrow> gie_mind" where
  "adapt_grid_on_trend_risk grid m = m\<lparr>logged := logged m @ [AdaptGridOnTrendRisk]\<rparr>"

section \<open>core/meta_guardian.py: the guardian\<close>

text \<open>
  The configuration is read from a JSON file, with the fallback values of
  \<^verbatim>\<open>load_config\<close>. The guardian's own state is its configuration and its reflection
  log; an entry of that log is kept without its time stamp and message text. The
  guardian writes its own messages to its own log file.
\<close>

record guardian_config =
  max_drawdown :: real
  max_open_trades :: int
  max_grid_size :: int
  min_equity_margin :: real
  meta_tune :: bool

record reflection_entry =
  e_equity :: real
  e_drawdown :: real
  e_margin_level :: real
  e_open_trades :: nat

record meta_guardian =
  config :: guardian_config
  meta_log :: "reflection_entry list"

definition default_config :: guardian_config where
  "default_config =
     \<lparr>max_drawdown = 0.2, max_open_trades = 20, max_grid_size = 7,
      min_equity_margin = 0.25, meta_tune = True\<rparr>"

text \<open>
  \<^verbatim>\<open>
  def check_drawdown(self):
      capital = self.gie_system.get_total_capital()
      equity = self.gie_system.get_equity()
      dd = (capital - equity) / capital
      if dd > self.config["max_drawdown"]:
          self.handle_drawdown(dd)       # gie_system.reduce_exposure(target_dd=max_drawdown)

  def check_open_trades(self):
      open_trades = self.gie_system.get_open_trades()
      if len(open_trades) > self.config["max_open_trades"]:
          self.handle_overtrading(len(open_trades))   # gie_system.limit_open_trades(max_open_trades)

  def check_grid_risk(self):
      for grid in self.gie_system.get_open_grids():
          if len(grid['positions']) > self.config["max_grid_size"]:
              self.handle_grid_overload(grid)   # close_riskiest_grid_positions(grid, keep=max_grid_size)

  def check_equity_margin(self):
      margin_level = self.gie_system.get_margin_level()
      if margin_level < self.config["min_equity_margin"]:
          self.handle_margin_risk(margin_level)   # gie_system.emergency_margin_action()

  def predict_risk(self):
      for grid in self.gie_system.get_open_grids():
          predicted = self.gie_system.predict_trend(grid)
          if predicted.get('risk_of_runaway'):
              self.handle_predicted_trend_risk(grid, predicted)   # adapt_grid_on_trend_risk
  \<close>
\<close>

definition check_drawdown :: "meta_guardian \<Rightarrow> gie_mind \<Rightarrow> gie_mind" where
  "check_drawdown g m =
     (let capital = get_total_capital m;
          equity = get_equity m;
          dd = (capital - equity) / capital
      in if max_drawdown (config g) < dd then reduce_exposure (max_drawdown (config g)) m else m)"

definition check_open_trades :: "meta_guardian \<Rightarrow> gie_mind \<Rightarrow> gie_mind" where
  "check_open_trades g m =
     (if max_open_trades (config g) < int (length (get_open_trades m))
      then limit_open_trades (max_open_trades (config g)) m else m)"

definition check_grid_risk :: "meta_guardian \<Rightarrow> gie_mind \<Rightarrow> gie_mind" where
  "check_grid_risk g m =
     fold (\<lambda>grid m'. if max_grid_size (config g) < int grid
                      then close_riskiest_grid_positions grid (max_grid_size (config g)) m'
                      else m')
       (get_open_grids m) m"

definition check_equity_margin :: "meta_guardian \<Rightarrow> gie_mind \<Rightarrow> gie_mind" where
  "check_equity_margin g m =
     (if get_margin_level m < min_equity_margin (config g) then emergency_margin_action m else m)"

definition predict_risk :: "meta_guardian \<Rightarrow> gie_mind \<Rightarrow> gie_mind" where
  "predict_risk g m =
     fold (\<lambda>grid m'. if predict_trend m' grid then adapt_grid_on_trend_risk grid m' else m')
       (get_open_grids m) m"

text \<open>
  \<^verbatim>\<open>
  def meta_reflection(self):
      entry = {...}
      self.meta_log.append(entry)
      if self.config.get("meta_tune", True):
          self.auto_tune_parameters(entry)

  def auto_tune_parameters(self, entry):
      if entry['drawdown'] > self.config["max_drawdown"] * 0.8:
          old = self.config["max_grid_size"]
          self.config["max_grid_size"] = max(3, old - 1)
  \<close>
\<close>

definition auto_tune_parameters :: "reflection_entry \<Rightarrow> meta_guardian \<Rightarrow> meta_guardian" where
  "auto_tune_parameters entry g =
     (if max_drawdown (config g) * 0.8 < e_drawdown entry
      then g\<lparr>config := (config g)\<lparr>max_grid_size := max 3 (max_grid_size (config g) - 1)\<rparr>\<rparr>
      else g)"

definition guardian_reflection :: "meta_guardian \<Rightarrow> gie_mind \<Rightarrow> meta_guardian" where
  "guardian_reflection g m =
     (let entry = \<lparr>e_equity = get_equity m,
                   e_drawdown = (get_total_capital m - get_equity m) / get_total_capital m,
                   e_margin_level = get_margin_level m,
                   e_open_trades = length (get_open_trades m)\<rparr>;
          g1 = g\<lparr>meta_log := meta_log g @ [entry]\<rparr>
      in if meta_tune (config g1) then auto_tune_parameters entry g1 else g1)"

text \<open>
  \<^verbatim>\<open>
  def monitor_all(self):
      try:
          self.check_drawdown()
          self.check_open_trades()
          self.check_grid_risk()
          self.check_equity_margin()
          self.predict_risk()
          self.meta_reflection()
          self.save_snapshot()
      except Exception as e:
          self.log(...)
  \<close>
  \<^verbatim>\<open>save_snapshot\<close> writes a file. The method neither returns a value nor sets an
  attribute of the GieMind.
\<close>

definition monitor_all :: "meta_guardian \<Rightarrow> gie_mind \<Rightarrow> meta_guardian \<times> gie_mind" where
  "monitor_all g m =
     (let m1 = check_drawdown g m;
          m2 = check_open_trades g m1;
          m3 = check_grid_risk g m2;
          m4 = check_equity_margin g m3;
          m5 = predict_risk g m4
      in (guardian_reflection g m5, m5))"

section \<open>core/base_sensor.py: the specialised sensors\<close>

text \<open>
  \<^verbatim>\<open>np.mean\<close> and \<^verbatim>\<open>np.std\<close> (the population standard deviation) of a non-empty
  list. A sensor with a window of at least one never passes an empty buffer.
\<close>

definition np_mean :: "real list \<Rightarrow> real" where
  "np_mean xs = sum_list xs / real (length xs)"

definition np_std :: "real list \<Rightarrow> real" where
  "np_std xs = sqrt (np_mean (map (\<lambda>x. (x - np_mean xs)\<^sup>2) xs))"

text \<open>
  A tick is a dict of named floats, or \<^verbatim>\<open>None\<close>. The guard
  \<^verbatim>\<open>not tick_data or "noise" not in tick_data\<close> holds for \<^verbatim>\<open>None\<close>, for the empty
  dict and for a dict without the field.
\<close>

type_synonym tick_data = "(string \<times> real) list option"

definition missing_input :: "string \<Rightarrow> tick_data \<Rightarrow> bool" where
  "missing_input field tick =
     (case tick of None \<Rightarrow> True | Some td \<Rightarrow> td = [] \<or> map_of td field = None)"

text \<open>
  The result dict of a read, without its \<^verbatim>\<open>id\<close>, its \<^verbatim>\<open>timestamp\<close> (the clock) and
  its \<^verbatim>\<open>info\<close> text (the same numbers, formatted).
\<close>

record reading =
  r_name :: string
  r_value :: real
  r_anomaly :: bool
  r_mean :: real
  r_std :: real
  r_hunger :: real
  r_growth_signal :: bool

text \<open>The attributes of a \<^verbatim>\<open>BaseSensor\<close> that a read uses; \<open>sensor_hunger\<close> is its
  \<^verbatim>\<open>hunger\<close>.\<close>

record sensor =
  sensor_name :: string
  window :: nat
  base_level :: real
  adaptive_level :: real
  learning_rate :: real
  buffer :: "real list"
  history :: "reading list"
  sensor_hunger :: real
  growth_signal :: bool

text \<open>The state after \<^verbatim>\<open>BaseSensor.__init__\<close> with its default
  \<^verbatim>\<open>base_level=1.0\<close> and \<^verbatim>\<open>learning_rate=0.1\<close>.\<close>

definition init_sensor :: "string \<Rightarrow> nat \<Rightarrow> sensor" where
  "init_sensor nm w =
     \<lparr>sensor_name = nm, window = w, base_level = 1.0, adaptive_level = 1.0,
      learning_rate = 0.1, buffer = [], history = [], sensor_hunger = 0,
      growth_signal = False\<rparr>"

text \<open>
  The three \<^verbatim>\<open>read\<close> methods of the file differ in the field they read, in the
  anomaly rule, in the hunger increment and in the growth ceiling, and are otherwise the
  same text:
  \<^verbatim>\<open>
  def read(self, tick_data):
      if not tick_data or "noise" not in tick_data:
          return None
      noise = tick_data['noise']
      self.buffer.append(noise)
      if len(self.buffer) > self.window:
          self.buffer.pop(0)
      std_noise = np.std(self.buffer)
      mean_noise = np.mean(self.buffer)
      self.adaptive_level = self.base_level + self.learning_rate * (std_noise + self.hunger)
      anomaly = abs(noise - mean_noise) > self.adaptive_level * 2
      if anomaly:
          self.hunger = max(0, self.hunger - 1)
      else:
          self.hunger += 0.1
      self.growth_signal = self.hunger > 4.0
      result = {...}
      self.history.append(result)
      self._auto_log(result)
      if self.cloud_sync:
          self._sync_cloud(result)
      return result
  \<close>
  \<^verbatim>\<open>_auto_log\<close> appends to a file and \<^verbatim>\<open>_sync_cloud\<close> does nothing.
\<close>

definition sensor_read ::
  "string \<Rightarrow> (real \<Rightarrow> real \<Rightarrow> real \<Rightarrow> bool) \<Rightarrow> real \<Rightarrow> real \<Rightarrow>
     sensor \<Rightarrow> tick_data \<Rightarrow> reading option \<times> sensor" where
  "sensor_read field rule increment growth_ceiling s tick =
     (if missing_input field tick then (None, s)
      else case tick of None \<Rightarrow> (None, s) | Some td \<Rightarrow>
        case map_of td field of None \<Rightarrow> (None, s) | Some x \<Rightarrow>
          let appended = buffer s @ [x];
              buf = (if window s < length appended then tl appended else appended);
              std_x = np_std buf;
              mean_x = np_mean buf;
              level = base_level s + learning_rate s * (std_x + sensor_hunger s);
              anomaly = rule x mean_x level;
              hunger' = (if anomaly then max 0 (sensor_hunger s - 1)
                         else sensor_hunger s + increment);
              growth = (growth_ceiling < hunger');
              result = \<lparr>r_name = sensor_name s, r_value = x, r_anomaly = anomaly,
                        r_mean = mean_x, r_std = std_x, r_hunger = hunger',
                        r_growth_signal = growth\<rparr>
          in (Some result,
              s\<lparr>buffer := buf, adaptive_level := level, sensor_hunger := hunger',
                growth_signal := growth, history := history s @ [result]\<rparr>))"

text \<open>\<^verbatim>\<open>NoiseSensor.read\<close>:
  \<^verbatim>\<open>anomaly = abs(noise - mean_noise) > self.adaptive_level * 2\<close>, increment 0.1,
  ceiling 4.0.\<close>

definition noise_sensor_read :: "sensor \<Rightarrow> tick_data \<Rightarrow> reading option \<times> sensor" where
  "noise_sensor_read =
     sensor_read ''noise'' (\<lambda>noise mean_noise level. level * 2 < \<bar>noise - mean_noise\<bar>) 0.1 4.0"

text \<open>\<^verbatim>\<open>PressureSensor.read\<close>: the same rule, increment 0.14, ceiling 4.2.\<close>

definition pressure_sensor_read :: "sensor \<Rightarrow> tick_data \<Rightarrow> reading option \<times> sensor" where
  "pressure_sensor_read =
     sensor_read ''pressure'' (\<lambda>pressure mean_p level. level * 2 < \<bar>pressure - mean_p\<bar>)
       0.14 4.2"

text \<open>\<^verbatim>\<open>SuperVolumeSensor.read\<close> of this file:
  \<^verbatim>\<open>anomaly = volume > (self.adaptive_level * 2) or volume < (self.adaptive_level * 0.5)\<close>,
  increment 0.11, ceiling 5.5.\<close>

definition volume_sensor_read :: "sensor \<Rightarrow> tick_data \<Rightarrow> reading option \<times> sensor" where
  "volume_sensor_read =
     sensor_read ''volume''
       (\<lambda>volume mean_volume level. level * 2 < volume \<or> volume < level * 0.5) 0.11 5.5"

text \<open>Feeding a sequence of noise values, one tick \<^verbatim>\<open>{'noise': v}\<close> each; the readings
  come back in order.\<close>

fun feed_noise :: "sensor \<Rightarrow> real list \<Rightarrow> reading option list \<times> sensor" where
  "feed_noise s [] = ([], s)"
| "feed_noise s (v # vs) =
     (case noise_sensor_read s (Some [(''noise'', v)]) of
        (r, s') \<Rightarrow> (case feed_noise s' vs of (rs, s'') \<Rightarrow> (r # rs, s'')))"

section \<open>core/sensors/noise_sensor.py: SuperNoiseSensor\<close>

text \<open>A buffered tick and the result dict built by \<^verbatim>\<open>_result\<close> (without the clock's
  \<^verbatim>\<open>timestamp\<close>).\<close>

record buffered_tick =
  b_price :: real
  b_volume :: real
  b_spread :: real
  b_time :: real

record noise_result =
  n_id :: string
  n_volatility :: real
  n_anomaly :: bool
  n_max_jump :: real
  n_pressure :: real
  n_micro_spikes :: nat
  n_micro_lulls :: nat
  n_info :: string
  n_hunger :: real
  n_growth_signal :: bool
  n_level :: string

record super_noise_sensor =
  sn_id :: string
  sn_window :: nat
  base_threshold :: real
  adaptive_threshold :: real
  sn_learning_rate :: real
  sn_buffer :: "buffered_tick list"
  sn_history :: "noise_result list"
  last_alert_time :: real
  sn_hunger :: real
  sn_growth_signal :: bool
  knowledge_bank :: "string set"

text \<open>
  \<^verbatim>\<open>
  def _result(self, volatility, anomaly, max_jump, pressure, micro_spikes, micro_lulls, info, level):
      return {"id": self.id, "volatility": volatility, "anomaly": anomaly, ...,
              "hunger": self.hunger, "growth_signal": self.growth_signal, ..., "level": level}
  \<close>
\<close>

definition sn_result ::
  "super_noise_sensor \<Rightarrow> real \<Rightarrow> bool \<Rightarrow> real \<Rightarrow> real \<Rightarrow> nat \<Rightarrow> nat \<Rightarrow> string \<Rightarrow> string
     \<Rightarrow> noise_result" where
  "sn_result s volatility anomaly max_jump pressure micro_spikes micro_lulls info level =
     \<lparr>n_id = sn_id s, n_volatility = volatility, n_anomaly = anomaly, n_max_jump = max_jump,
      n_pressure = pressure, n_micro_spikes = micro_spikes, n_micro_lulls = micro_lulls,
      n_info = info, n_hunger = sn_hunger s, n_growth_signal = sn_growth_signal s,
      n_level = level\<rparr>"

text \<open>The state after \<^verbatim>\<open>SuperNoiseSensor.__init__\<close> with its defaults, for a given id.\<close>

definition init_super_noise_sensor :: "string \<Rightarrow> super_noise_sensor" where
  "init_super_noise_sensor sid =
     \<lparr>sn_id = sid, sn_window = 100, base_threshold = 2.0, adaptive_threshold = 2.0,
      sn_learning_rate = 0.1, sn_buffer = [], sn_history = [], last_alert_time = 0,
      sn_hunger = 0, sn_growth_signal = False, knowledge_bank = {}\<rparr>"

text \<open>\<^verbatim>\<open>np.diff\<close>\<close>

fun np_diff :: "real list \<Rightarrow> real list" where
  "np_diff (x # y # xs) = (y - x) # np_diff (y # xs)"
| "np_diff xs = []"

text \<open>
  \<^verbatim>\<open>
  def read(self, tick_data):
      if not tick_data or 'price' not in tick_data:
          return self._result(0, False, 0, 0, 0, 0, "Brak tick_data", level="low")
      price = tick_data['price']
      volume = tick_data.get('volume', 1.0)
      spread = tick_data.get('spread', 0.0)
      timestamp = tick_data.get('time', time.time())
      self.buffer.append({'price': price, 'volume': volume, 'spread': spread, 'time': timestamp})
      if len(self.buffer) > self.window:
          self.buffer.pop(0)
      prices = np.array([b['price'] for b in self.buffer])
      returns = np.diff(prices) if len(prices) > 1 else np.zeros(1)
      volatility = np.std(returns) if len(returns) > 1 else 0.0
      max_jump = np.max(np.abs(returns)) if len(returns) > 1 else 0.0
      volatility_history = [np.std(np.diff(prices[max(0, i-10):i])) for i in range(10, len(prices))]
      recent_vol = np.mean(volatility_history) if volatility_history else 0.0
      self.adaptive_threshold = (self.base_threshold + recent_vol * 2) * (1 + self.learning_rate * self.hunger)
      anomaly = volatility > self.adaptive_threshold or max_jump > self.adaptive_threshold * 1.5
      micro_spikes = np.sum(np.abs(returns) > self.adaptive_threshold)
      micro_lulls = np.sum(np.abs(returns) < self.adaptive_threshold * 0.12)
      pressure = volume * spread * (1 + volatility)
      if anomaly:
          self.hunger = max(0, self.hunger - 1)
      else:
          self.hunger += 0.1
      self.growth_signal = self.hunger > 5
      unique_pattern = (f"{volatility:.4f}:{max_jump:.4f}:{micro_spikes}:{micro_lulls}:{pressure:.2f}")
      if unique_pattern not in self.knowledge_bank and anomaly:
          self.knowledge_bank.add(unique_pattern)
      level = "high" if anomaly else ("hungry" if self.hunger > 3 else "ok")
      info = f"{level.upper()} | vol=... jump=... pres=... hunger=..."
      if anomaly and (time.time() - self.last_alert_time > 1):
          self.last_alert_time = time.time()
      result = self._result(volatility, anomaly, max_jump, pressure, micro_spikes, micro_lulls, info, level)
      self.history.append(result)
      if len(self.history) > 1000:
          self.history.pop(0)
      self._auto_log(result)
      if self.cloud_sync:
          self._sync_cloud(result)
      return result

  def _auto_log(self, result):
      os.makedirs(os.path.dirname(self.auto_log_path), exist_ok=True)
      with open(self.auto_log_path, "a", encoding="utf-8") as f:
          f.write(json.dumps(result, ensure_ascii=False) + "\n")
  \<close>
  The clock \<open>now\<close> and the two text formats (\<open>pattern_of\<close> for
  \<^verbatim>\<open>unique_pattern\<close>, \<open>info_of\<close> for \<^verbatim>\<open>info\<close>) are parameters. On a tick with a
  price the result holds \<^verbatim>\<open>micro_spikes\<close>, a numpy integer, which \<^verbatim>\<open>json.dumps\<close>
  refuses: \<^verbatim>\<open>_auto_log\<close>, which has no handler, raises TypeError after the state has
  been changed and the result appended to the history. Without a price the method
  returns the placeholder dict before anything is changed or logged. A returned dict is
  kept under \<open>Some\<close>, so that it can be told from a null reading.
\<close>

definition super_noise_read ::
  "(real \<Rightarrow> real \<Rightarrow> nat \<Rightarrow> nat \<Rightarrow> real \<Rightarrow> string) \<Rightarrow>
   (string \<Rightarrow> real \<Rightarrow> real \<Rightarrow> real \<Rightarrow> real \<Rightarrow> string) \<Rightarrow> real \<Rightarrow>
   super_noise_sensor \<Rightarrow> tick_data
     \<Rightarrow> (py_error + noise_result option) \<times> super_noise_sensor" where
  "super_noise_read pattern_of info_of now s tick =
     (if missing_input ''price'' tick
      then (Inr (Some (sn_result s 0 False 0 0 0 0 ''Brak tick_data'' ''low'')), s)
      else case tick of
        None \<Rightarrow> (Inr (Some (sn_result s 0 False 0 0 0 0 ''Brak tick_data'' ''low'')), s)
      | Some td \<Rightarrow>
        let price = dict_get td ''price'' 0;
            volume = dict_get td ''volume'' 1.0;
            spread = dict_get td ''spread'' 0.0;
            timestamp = dict_get td ''time'' now;
            appended = sn_buffer s @ [\<lparr>b_price = price, b_volume = volume,
                                       b_spread = spread, b_time = timestamp\<rparr>];
            buf = (if sn_window s < length appended then tl appended else appended);
            prices = map b_price buf;
            returns = (if 1 < length prices then np_diff prices else [0]);
            volatility = (if 1 < length returns then np_std returns else 0);
            max_jump = (if 1 < length returns then Max (set (map abs returns)) else 0);
            volatility_history =
              map (\<lambda>i. np_std (np_diff (take 10 (drop (i - 10) prices)))) [10..<length prices];
            recent_vol = (if volatility_history \<noteq> [] then np_mean volatility_history else 0);
            threshold = (base_threshold s + recent_vol * 2) * (1 + sn_learning_rate s * sn_hunger s);
            anomaly = (threshold < volatility \<or> threshold * 1.5 < max_jump);
            micro_spikes = length (filter (\<lambda>r. threshold < \<bar>r\<bar>) returns);
            micro_lulls = length (filter (\<lambda>r. \<bar>r\<bar> < threshold * 0.12) returns);
            pressure = volume * spread * (1 + volatility);
            hunger' = (if anomaly then max 0 (sn_hunger s - 1) else sn_hunger s + 0.1);
            growth = (5 < hunger');
            unique_pattern = pattern_of volatility max_jump micro_spikes micro_lulls pressure;
            bank = (if unique_pattern \<notin> knowledge_bank s \<and> anomaly
                    then insert unique_pattern (knowledge_bank s) else knowledge_bank s);
            level = (if anomaly then ''high'' else if 3 < hunger' then ''hungry'' else ''ok'');
            info = info_of level volatility max_jump pressure hunger';
            alert = (if anomaly \<and> 1 < now - last_alert_time s then now else last_alert_time s);
            s1 = s\<lparr>sn_buffer := buf, adaptive_threshold := threshold, sn_hunger := hunger',
                    sn_growth_signal := growth, knowledge_bank := bank,
                    last_alert_time := alert\<rparr>;
            result = sn_result s1 volatility anomaly max_jump pressure micro_spikes micro_lulls
                       info level;
            hist = sn_history s1 @ [result]
        in (Inl TypeError,
            s1\<lparr>sn_history := (if 1000 < length hist then tl hist else hist)\<rparr>))"

section \<open>core/sensors/pressure_sensor.py and volume_sensor.py\<close>

text \<open>
  \<^verbatim>\<open>SuperPressureSensor\<close> and the \<^verbatim>\<open>SuperVolumeSensor\<close> of
  \<^verbatim>\<open>sensors/volume_sensor.py\<close> have the same attributes and the same \<^verbatim>\<open>read\<close>, up
  to the field they read, the values they buffer beside it, the hunger increment, the
  growth ceiling, the level at which they report hungry and the length of the history.
  A buffered tick keeps the read value, the second value (the volume for the pressure
  sensor, the price for the volume sensor), the spread and the time.
\<close>

record level_tick =
  lt_value :: real
  lt_second :: real
  lt_spread :: real
  lt_time :: real

record level_result =
  l_id :: string
  l_mean :: real
  l_anomaly :: bool
  l_std :: real
  l_trend :: real
  l_info :: string
  l_hunger :: real
  l_growth_signal :: bool
  l_level :: string

record level_sensor =
  ls_id :: string
  ls_window :: nat
  ls_base :: real
  ls_adaptive :: real
  ls_learning_rate :: real
  ls_buffer :: "level_tick list"
  ls_history :: "level_result list"
  ls_last_alert_time :: real
  ls_hunger :: real
  ls_growth_signal :: bool
  ls_knowledge_bank :: "string set"

text \<open>The states after \<^verbatim>\<open>SuperPressureSensor.__init__\<close> (window 100, learning rate
  0.1) and \<^verbatim>\<open>SuperVolumeSensor.__init__\<close> (window 120, learning rate 0.12).\<close>

definition init_super_pressure_sensor :: "string \<Rightarrow> level_sensor" where
  "init_super_pressure_sensor sid =
     \<lparr>ls_id = sid, ls_window = 100, ls_base = 1.0, ls_adaptive = 1.0,
      ls_learning_rate = 0.1, ls_buffer = [], ls_history = [], ls_last_alert_time = 0,
      ls_hunger = 0, ls_growth_signal = False, ls_knowledge_bank = {}\<rparr>"

definition init_super_volume_sensor :: "string \<Rightarrow> level_sensor" where
  "init_super_volume_sensor sid =
     \<lparr>ls_id = sid, ls_window = 120, ls_base = 1.0, ls_adaptive = 1.0,
      ls_learning_rate = 0.12, ls_buffer = [], ls_history = [], ls_last_alert_time = 0,
      ls_hunger = 0, ls_growth_signal = False, ls_knowledge_bank = {}\<rparr>"

text \<open>
  \<^verbatim>\<open>
  def _result(self, mean_pressure, anomaly, std_pressure, pressure_trend, info, level):
      return {"id": self.id, "mean_pressure": mean_pressure, "anomaly": anomaly,
              "std_pressure": std_pressure, "pressure_trend": pressure_trend, "info": info,
              "hunger": self.hunger, "growth_signal": self.growth_signal, ..., "level": level}
  \<close>
\<close>

definition ls_result ::
  "level_sensor \<Rightarrow> real \<Rightarrow> bool \<Rightarrow> real \<Rightarrow> real \<Rightarrow> string \<Rightarrow> string \<Rightarrow> level_result" where
  "ls_result s mean_x anomaly std_x trend info level =
     \<lparr>l_id = ls_id s, l_mean = mean_x, l_anomaly = anomaly, l_std = std_x, l_trend = trend,
      l_info = info, l_hunger = ls_hunger s, l_growth_signal = ls_growth_signal s,
      l_level = level\<rparr>"

text \<open>\<^verbatim>\<open>np.polyfit(np.arange(len(ys)), ys, 1)[0]\<close>: the slope of the least-squares
  line through the points \<open>(i, ys ! i)\<close>.\<close>

definition polyfit_slope :: "real list \<Rightarrow> real" where
  "polyfit_slope ys =
     (let xs = map real [0..<length ys];
          mx = np_mean xs;
          my = np_mean ys
      in sum_list (map (\<lambda>(x, y). (x - mx) * (y - my)) (zip xs ys))
           / sum_list (map (\<lambda>x. (x - mx)\<^sup>2) xs))"

text \<open>
  The \<^verbatim>\<open>read\<close> of \<^verbatim>\<open>SuperPressureSensor\<close>; the one of \<^verbatim>\<open>SuperVolumeSensor\<close> reads
  \<^verbatim>\<open>volume\<close>, adds 0.11, signals growth above 5.5, reports hungry above 3.5 and keeps
  1200 results.
  \<^verbatim>\<open>
  def read(self, tick_data):
      if not tick_data or "pressure" not in tick_data:
          return self._result(0, False, 0, 0, "Brak tick_data", level="low")
      pressure = tick_data['pressure']
      volume = tick_data.get('volume', 1.0)
      bid = tick_data.get('bid', 0.0)
      ask = tick_data.get('ask', 0.0)
      spread = tick_data.get('spread', ask - bid if ask and bid else 0.0)
      timestamp = tick_data.get('time', time.time())
      self.buffer.append({'pressure': pressure, 'volume': volume, 'spread': spread, 'time': timestamp})
      if len(self.buffer) > self.window:
          self.buffer.pop(0)
      pressures = np.array([b['pressure'] for b in self.buffer])
      mean_pressure = np.mean(pressures)
      std_pressure = np.std(pressures)
      max_pressure = np.max(pressures)
      min_pressure = np.min(pressures)
      recent_vol = np.std(pressures[-min(10, len(pressures)):]) if len(pressures) > 10 else std_pressure
      self.adaptive_pressure = self.base_pressure + self.learning_rate * (recent_vol + self.hunger)
      anomaly = pressure > (self.adaptive_pressure * 2) or pressure < (self.adaptive_pressure * 0.5)
      micro_spikes = np.sum(np.abs(pressures - mean_pressure) > self.adaptive_pressure)
      pressure_trend = np.polyfit(np.arange(len(pressures)), pressures, 1)[0] if len(pressures) > 5 else 0.0
      if anomaly:
          self.hunger = max(0, self.hunger - 1)
      else:
          self.hunger += 0.1
      self.growth_signal = self.hunger > 5
      unique_pattern = f"{mean_pressure:.4f}:{std_pressure:.4f}:{max_pressure:.4f}:{min_pressure:.4f}:{micro_spikes}"
      if unique_pattern not in self.knowledge_bank and anomaly:
          self.knowledge_bank.add(unique_pattern)
      level = "high" if anomaly else ("hungry" if self.hunger > 3 else "ok")
      info = f"{level.upper()} | pres=... spikes=... hunger=..."
      if anomaly and (time.time() - self.last_alert_time > 1):
          self.last_alert_time = time.time()
      result = self._result(mean_pressure, anomaly, std_pressure, pressure_trend, info, level)
      self.history.append(result)
      if len(self.history) > 1000:
          self.history.pop(0)
      self._auto_log(result)
      if self.cloud_sync:
          self._sync_cloud(result)
      return result
  \<close>
  \<^verbatim>\<open>_auto_log\<close> is the one of SuperNoiseSensor. On a tick with the field the result
  holds \<^verbatim>\<open>anomaly\<close>, a numpy boolean (a comparison with the numpy float
  \<^verbatim>\<open>adaptive_pressure\<close>), which \<^verbatim>\<open>json.dumps\<close> refuses, so the method raises TypeError
  after the state has been changed.
\<close>

definition pressure_entry :: "(string \<times> real) list \<Rightarrow> real \<Rightarrow> level_tick" where
  "pressure_entry td now =
     (let bid = dict_get td ''bid'' 0.0;
          ask = dict_get td ''ask'' 0.0
      in \<lparr>lt_value = dict_get td ''pressure'' 0,
          lt_second = dict_get td ''volume'' 1.0,
          lt_spread = dict_get td ''spread'' (if ask \<noteq> 0 \<and> bid \<noteq> 0 then ask - bid else 0),
          lt_time = dict_get td ''time'' now\<rparr>)"

definition volume_entry :: "(string \<times> real) list \<Rightarrow> real \<Rightarrow> level_tick" where
  "volume_entry td now =
     \<lparr>lt_value = dict_get td ''volume'' 0,
      lt_second = dict_get td ''price'' 0.0,
      lt_spread = dict_get td ''spread'' 0.0,
      lt_time = dict_get td ''time'' now\<rparr>"

definition level_read ::
  "string \<Rightarrow> ((string \<times> real) list \<Rightarrow> real \<Rightarrow> level_tick) \<Rightarrow> real \<Rightarrow> real \<Rightarrow> real \<Rightarrow> nat \<Rightarrow>
   (real \<Rightarrow> real \<Rightarrow> real \<Rightarrow> real \<Rightarrow> nat \<Rightarrow> string) \<Rightarrow>
   (string \<Rightarrow> real \<Rightarrow> real \<Rightarrow> real \<Rightarrow> nat \<Rightarrow> real \<Rightarrow> string) \<Rightarrow> real \<Rightarrow>
   level_sensor \<Rightarrow> tick_data \<Rightarrow> (py_error + level_result option) \<times> level_sensor" where
  "level_read field entry increment growth_level hungry_level keep pattern_of info_of now s tick =
     (if missing_input field tick
      then (Inr (Some (ls_result s 0 False 0 0 ''Brak tick_data'' ''low'')), s)
      else case tick of
        None \<Rightarrow> (Inr (Some (ls_result s 0 False 0 0 ''Brak tick_data'' ''low'')), s)
      | Some td \<Rightarrow>
        let x = dict_get td field 0;
            appended = ls_buffer s @ [entry td now];
            buf = (if ls_window s < length appended then tl appended else appended);
            xs = map lt_value buf;
            mean_x = np_mean xs;
            std_x = np_std xs;
            max_x = Max (set xs);
            min_x = Min (set xs);
            recent_vol = (if 10 < length xs then np_std (drop (length xs - 10) xs) else std_x);
            level_now = ls_base s + ls_learning_rate s * (recent_vol + ls_hunger s);
            anomaly = (level_now * 2 < x \<or> x < level_now * 0.5);
            micro_spikes = length (filter (\<lambda>v. level_now < \<bar>v - mean_x\<bar>) xs);
            trend = (if 5 < length xs then polyfit_slope xs else 0);
            hunger' = (if anomaly then max 0 (ls_hunger s - 1) else ls_hunger s + increment);
            growth = (growth_level < hunger');
            unique_pattern = pattern_of mean_x std_x max_x min_x micro_spikes;
            bank = (if unique_pattern \<notin> ls_knowledge_bank s \<and> anomaly
                    then insert unique_pattern (ls_knowledge_bank s) else ls_knowledge_bank s);
            level = (if anomaly then ''high''
                     else if hungry_level < hunger' then ''hungry'' else ''ok'');
            info = info_of level x mean_x std_x micro_spikes hunger';
            alert = (if anomaly \<and> 1 < now - ls_last_alert_time s then now
                     else ls_last_alert_time s);
            s1 = s\<lparr>ls_buffer := buf, ls_adaptive := level_now, ls_hunger := hunger',
                    ls_growth_signal := growth, ls_knowledge_bank := bank,
                    ls_last_alert_time := alert\<rparr>;
            result = ls_result s1 mean_x anomaly std_x trend info level;
            hist = ls_history s1 @ [result]
        in (Inl TypeError,
            s1\<lparr>ls_history := (if keep < length hist then tl hist else hist)\<rparr>))"

definition super_pressure_read ::
  "(real \<Rightarrow> real \<Rightarrow> real \<Rightarrow> real \<Rightarrow> nat \<Rightarrow> string) \<Rightarrow>
   (string \<Rightarrow> real \<Rightarrow> real \<Rightarrow> real \<Rightarrow> nat \<Rightarrow> real \<Rightarrow> string) \<Rightarrow> real \<Rightarrow>
   level_sensor \<Rightarrow> tick_data \<Rightarrow> (py_error + level_result option) \<times> level_sensor" where
  "super_pressure_read = level_read ''pressure'' pressure_entry 0.1 5 3 1000"

definition super_volume_read ::
  "(real \<Rightarrow> real \<Rightarrow> real \<Rightarrow> real \<Rightarrow> nat \<Rightarrow> string) \<Rightarrow>
   (string \<Rightarrow> real \<Rightarrow> real \<Rightarrow> real \<Rightarrow> nat \<Rightarrow> real \<Rightarrow> string) \<Rightarrow> real \<Rightarrow>
   level_sensor \<Rightarrow> tick_data \<Rightarrow> (py_error + level_result option) \<times> level_sensor" where
  "super_volume_read = level_read ''volume'' volume_entry 0.11 5.5 3.5 1200"

section \<open>core/sensors/sag_sensor.py: SuperAggressiveSensor\<close>

text \<open>
  The attributes that \<^verbatim>\<open>read\<close> and \<^verbatim>\<open>_analyze_tick\<close> use; the buffer holds triples
  \<^verbatim>\<open>(timestamp, price, spread)\<close>.
\<close>

record sag_sensor =
  sag_window :: nat
  sag_hunger :: real
  cooldown_period :: real
  sag_buffer :: "(real \<times> real \<times> real) list"
  anomaly_count :: nat
  high_pressure_events :: nat
  last_trade_time :: real
  anomaly_id :: nat

definition init_sag_sensor :: sag_sensor where
  "init_sag_sensor =
     \<lparr>sag_window = 100, sag_hunger = 1.0, cooldown_period = 4.0, sag_buffer = [],
      anomaly_count = 0, high_pressure_events = 0, last_trade_time = 0, anomaly_id = 0\<rparr>"

text \<open>What \<^verbatim>\<open>read\<close> returns: the empty dict \<^verbatim>\<open>{}\<close> or the dict of an analysis.\<close>

datatype 'r sag_reading = EmptyDict | Analysis 'r

text \<open>
  \<^verbatim>\<open>
  def read(self, tick_data: dict) -> dict:
      price = tick_data.get('price')
      spread = tick_data.get('spread', 0.0)
      timestamp = tick_data.get('timestamp', time.time())
      if price is None or timestamp is None:
          self.logger.warning(...)
          return {}
      self.buffer.append((timestamp, price, spread))
      if len(self.buffer) > self.window:
          self.buffer.pop(0)
      prices = np.array([p for t, p, s in self.buffer])
      spreads = np.array([s for t, p, s in self.buffer])
      times = np.array([t for t, p, s in self.buffer])
      if len(prices) >= 2:
          returns = np.diff(prices)
          volatility = np.std(returns)
      else:
          returns = np.array([])
          volatility = 0.0
      self.logger.debug(...)
      return self._analyze_tick(timestamp, prices, spreads, times, returns, volatility)
  \<close>
  On \<^verbatim>\<open>None\<close> the first line raises AttributeError. The values of a tick are floats,
  so the price is \<^verbatim>\<open>None\<close> exactly when the dict has none, and the time stamp never is.
  \<^verbatim>\<open>_analyze_tick\<close>, which computes an entropy and a Fourier transform and formats the
  clock, is a parameter.
\<close>

definition sag_read ::
  "(real \<Rightarrow> real list \<Rightarrow> real list \<Rightarrow> real list \<Rightarrow> real list \<Rightarrow> real \<Rightarrow> sag_sensor
      \<Rightarrow> (py_error + 'r) \<times> sag_sensor) \<Rightarrow> real \<Rightarrow>
   sag_sensor \<Rightarrow> tick_data \<Rightarrow> (py_error + 'r sag_reading) \<times> sag_sensor" where
  "sag_read analyze_tick now s tick =
     (case tick of
        None \<Rightarrow> (Inl AttributeError, s)
      | Some td \<Rightarrow>
          (case map_of td ''price'' of
             None \<Rightarrow> (Inr EmptyDict, s)
           | Some price \<Rightarrow>
               let spread = dict_get td ''spread'' 0.0;
                   timestamp = dict_get td ''timestamp'' now;
                   appended = sag_buffer s @ [(timestamp, price, spread)];
                   buf = (if sag_window s < length appended then tl appended else appended);
                   prices = map (\<lambda>(t, p, sp). p) buf;
                   spreads = map (\<lambda>(t, p, sp). sp) buf;
                   times = map (\<lambda>(t, p, sp). t) buf;
                   returns = (if 2 \<le> length prices then np_diff prices else []);
                   volatility = (if 2 \<le> length prices then np_std returns else 0)
               in case analyze_tick timestamp prices spreads times returns volatility
                         (s\<lparr>sag_buffer := buf\<rparr>) of
                    (Inl err, s') \<Rightarrow> (Inl err, s')
                  | (Inr r, s') \<Rightarrow> (Inr (Analysis r), s')))"

section \<open>Properties of the effectiveness lookup\<close>

lemma get_effectiveness_present:
  "map_of sts name = Some st \<Longrightarrow>
     get_effectiveness sts name =
       Inr (if trials st \<noteq> 0 then real_of_int (win st) / real_of_int (trials st) else 0)"
  by (simp add: get_effectiveness_def py_truediv_def)

lemma get_effectiveness_no_zero_division:
  "get_effectiveness sts name \<noteq> Inl ZeroDivisionError"
  by (simp add: get_effectiveness_def py_truediv_def split: option.split)

lemma get_effectiveness_registered:
  "get_effectiveness (snd (evolve_register engs sts new_key e)) new_key = Inr 0"
  by (simp add: get_effectiveness_def evolve_register_def update_conv')

text \<open>
  Claim C10. The effectiveness lookup is total over the stats table: for every engine
  name present in the stats it returns wins divided by trials when the trial count is
  nonzero and 0.0 when it is zero; it never raises a division by zero, in particular
  not on the zero-trials entry that the evolver registers for a new engine.
\<close>

theorem C10_get_effectiveness_total:
  "(\<forall>st. map_of sts name = Some st \<longrightarrow>
      get_effectiveness sts name =
        Inr (if trials st \<noteq> 0 then real_of_int (win st) / real_of_int (trials st) else 0))
   \<and> get_effectiveness sts name \<noteq> Inl ZeroDivisionError
   \<and> get_effectiveness (snd (evolve_register engs sts new_key e)) new_key = Inr 0"
proof (intro conjI allI impI)
  fix st assume "map_of sts name = Some st"
  then show "get_effectiveness sts name =
      Inr (if trials st \<noteq> 0 then real_of_int (win st) / real_of_int (trials st) else 0)"
    by (rule get_effectiveness_present)
next
  show "get_effectiveness sts name \<noteq> Inl ZeroDivisionError"
    by (rule get_effectiveness_no_zero_division)
next
  show "get_effectiveness (snd (evolve_register engs sts new_key e)) new_key = Inr 0"
    by (rule get_effectiveness_registered)
qed

theorem C10_get_effectiveness_total_witness:
  "map_of [(''OstroznyEngine'', \<lparr>win = 3, trials = 4\<rparr>)] ''OstroznyEngine''
     = Some \<lparr>win = 3, trials = 4\<rparr>
   \<and> get_effectiveness [(''OstroznyEngine'', \<lparr>win = 3, trials = 4\<rparr>)] ''OstroznyEngine''
     = Inr (3 / 4)
   \<and> get_effectiveness
        (snd (evolve_register [(''OstroznyEngine'', ())]
               [(''OstroznyEngine'', \<lparr>win = 3, trials = 4\<rparr>)] ''OstroznyEngine_1234'' ()))
        ''OstroznyEngine_1234'' = Inr 0"
  using C10_get_effectiveness_total
    [of "[(''OstroznyEngine'', \<lparr>win = 3, trials = 4\<rparr>)]" "''OstroznyEngine''"
        "[(''OstroznyEngine'', ())]" "''OstroznyEngine_1234''" "()"]
  by simp

section \<open>Properties of the knowledge merge\<close>

lemma py_int_half_sum:
  "0 \<le> a \<Longrightarrow> 0 \<le> b \<Longrightarrow> py_int (of_int a * 0.5 + of_int b * 0.5) = (a + b) div 2"
proof -
  assume a: "0 \<le> a" and b: "0 \<le> b"
  have e: "real_of_int a * 0.5 + real_of_int b * 0.5 = real_of_int (a + b) / real_of_int 2"
    by simp
  have "0 \<le> real_of_int a * 0.5 + real_of_int b * 0.5" using a b by simp
  then have "py_int (of_int a * 0.5 + of_int b * 0.5) = \<lfloor>real_of_int (a + b) / real_of_int 2\<rfloor>"
    unfolding py_int_def e by simp
  also have "\<dots> = (a + b) div 2" by (rule floor_divide_of_int_eq)
  finally show ?thesis .
qed

lemma merge_entry_nonneg:
  assumes "0 \<le> win prev" "0 \<le> trials prev" "0 \<le> win v" "0 \<le> trials v"
  shows "merge_entry prev v =
           \<lparr>win = win prev + win v div 2, trials = trials prev + trials v div 2\<rparr>"
proof -
  have w: "py_int (of_int (win prev + win v) * 0.5 + of_int (win prev) * 0.5)
             = (win prev + win v + win prev) div 2"
    using assms by (intro py_int_half_sum) simp_all
  have t: "py_int (of_int (trials prev + trials v) * 0.5 + of_int (trials prev) * 0.5)
             = (trials prev + trials v + trials prev) div 2"
    using assms by (intro py_int_half_sum) simp_all
  have w2: "(win prev + win v + win prev) div 2 = win prev + win v div 2" by presburger
  have t2: "(trials prev + trials v + trials prev) div 2 = trials prev + trials v div 2"
    by presburger
  show ?thesis
    unfolding merge_entry_def Let_def w t w2 t2 ..
qed

lemma map_of_merge_knowledge:
  "distinct (map fst remote) \<Longrightarrow>
     map_of (merge_knowledge kn remote) k =
       (case map_of remote k of
          None \<Rightarrow> map_of kn k
        | Some v \<Rightarrow> Some (case map_of kn k of None \<Rightarrow> v | Some prev \<Rightarrow> merge_entry prev v))"
proof (induction remote arbitrary: kn)
  case Nil
  then show ?case by simp
next
  case (Cons item remote)
  obtain k' v' where item: "item = (k', v')" by (cases item)
  from Cons.prems item have d: "distinct (map fst remote)" and nin: "k' \<notin> fst ` set remote"
    by simp_all
  from nin have none: "map_of remote k' = None" by (simp add: map_of_eq_None_iff)
  have "map_of (merge_knowledge kn (item # remote)) k =
      (case map_of remote k of
         None \<Rightarrow> map_of (case map_of kn k' of
                 Some prev \<Rightarrow> AList.update k' (merge_entry prev v') kn
               | None \<Rightarrow> AList.update k' v' kn) k
       | Some v \<Rightarrow> Some (case map_of (case map_of kn k' of
                 Some prev \<Rightarrow> AList.update k' (merge_entry prev v') kn
               | None \<Rightarrow> AList.update k' v' kn) k of None \<Rightarrow> v | Some prev \<Rightarrow> merge_entry prev v))"
    by (simp only: item merge_knowledge.simps Cons.IH [OF d])
  also have "\<dots> = (case map_of (item # remote) k of
          None \<Rightarrow> map_of kn k
        | Some v \<Rightarrow> Some (case map_of kn k of None \<Rightarrow> v | Some prev \<Rightarrow> merge_entry prev v))"
    using none by (cases "k = k'") (auto simp: item update_conv' split: option.split)
  finally show ?case .
qed


lemma merge_entry_trials_nonneg:
  assumes "0 \<le> trials prev" "0 \<le> trials v"
  shows "trials (merge_entry prev v) = trials prev + trials v div 2"
proof -
  have "py_int (of_int (trials prev + trials v) * 0.5 + of_int (trials prev) * 0.5)
          = (trials prev + trials v + trials prev) div 2"
    using assms by (intro py_int_half_sum) simp_all
  also have "\<dots> = trials prev + trials v div 2" by presburger
  finally show ?thesis by (simp add: merge_entry_def Let_def)
qed

text \<open>
  Claim C3 (ledger merge is commutative and blends with equal weight), as the code has
  it. For a key that both ledgers hold, with non-negative counts, \<^verbatim>\<open>merge_knowledge\<close>
  stores the local count plus half of the remote count (rounded down), for wins and for
  trials: the truncated mean of the local count and of the sum of both counts. The two
  merge orders give the same entry for the key exactly when the wins of the two entries
  agree after halving rounded up, and so do the trials; in particular when the two
  entries are equal.
\<close>

theorem C3_merge_shared_key:
  assumes d1: "distinct (map fst l1)" and d2: "distinct (map fst l2)"
    and k1: "map_of l1 k = Some s1" and k2: "map_of l2 k = Some s2"
    and nn1: "0 \<le> win s1 \<and> 0 \<le> trials s1" and nn2: "0 \<le> win s2 \<and> 0 \<le> trials s2"
  shows "map_of (merge_knowledge l1 l2) k
           = Some \<lparr>win = win s1 + win s2 div 2, trials = trials s1 + trials s2 div 2\<rparr>
       \<and> map_of (merge_knowledge l2 l1) k
           = Some \<lparr>win = win s2 + win s1 div 2, trials = trials s2 + trials s1 div 2\<rparr>
       \<and> (map_of (merge_knowledge l1 l2) k = map_of (merge_knowledge l2 l1) k
            \<longleftrightarrow> (win s1 + 1) div 2 = (win s2 + 1) div 2
                \<and> (trials s1 + 1) div 2 = (trials s2 + 1) div 2)"
proof -
  have a: "map_of (merge_knowledge l1 l2) k = Some (merge_entry s1 s2)"
    by (simp add: map_of_merge_knowledge [OF d2] k1 k2)
  have b: "map_of (merge_knowledge l2 l1) k = Some (merge_entry s2 s1)"
    by (simp add: map_of_merge_knowledge [OF d1] k1 k2)
  have a': "merge_entry s1 s2
      = \<lparr>win = win s1 + win s2 div 2, trials = trials s1 + trials s2 div 2\<rparr>"
    using nn1 nn2 by (intro merge_entry_nonneg) simp_all
  have b': "merge_entry s2 s1
      = \<lparr>win = win s2 + win s1 div 2, trials = trials s2 + trials s1 div 2\<rparr>"
    using nn1 nn2 by (intro merge_entry_nonneg) simp_all
  have w: "win s1 + win s2 div 2 = win s2 + win s1 div 2
             \<longleftrightarrow> (win s1 + 1) div 2 = (win s2 + 1) div 2"
    by presburger
  have t: "trials s1 + trials s2 div 2 = trials s2 + trials s1 div 2
             \<longleftrightarrow> (trials s1 + 1) div 2 = (trials s2 + 1) div 2"
    by presburger
  show ?thesis
    unfolding a b a' b' using w t by simp
qed

theorem C3_merge_shared_key_witness:
  "distinct (map fst [((''A'', 0::real, 0::real, 0::real), \<lparr>win = 3, trials = 4\<rparr>)])
   \<and> distinct (map fst [((''A'', 0::real, 0::real, 0::real), \<lparr>win = 4, trials = 4\<rparr>)])
   \<and> map_of (merge_knowledge [((''A'', 0::real, 0::real, 0::real), \<lparr>win = 3, trials = 4\<rparr>)]
                [((''A'', 0, 0, 0), \<lparr>win = 4, trials = 4\<rparr>)]) (''A'', 0, 0, 0)
       = Some \<lparr>win = 5, trials = 6\<rparr>
   \<and> map_of (merge_knowledge [((''A'', 0::real, 0::real, 0::real), \<lparr>win = 4, trials = 4\<rparr>)]
                [((''A'', 0, 0, 0), \<lparr>win = 3, trials = 4\<rparr>)]) (''A'', 0, 0, 0)
       = Some \<lparr>win = 5, trials = 6\<rparr>"
  using C3_merge_shared_key
    [of "[((''A'', 0::real, 0::real, 0::real), \<lparr>win = 3, trials = 4\<rparr>)]"
        "[((''A'', 0::real, 0::real, 0::real), \<lparr>win = 4, trials = 4\<rparr>)]"
        "(''A'', 0, 0, 0)" "\<lparr>win = 3, trials = 4\<rparr>" "\<lparr>win = 4, trials = 4\<rparr>"]
  by simp

text \<open>
  The claim as stated fails: with the entries 8/10 and 2/10 for one key, one merge order
  stores 9/15 and the other 6/15, and neither is the equal-weight blend 5/10.
\<close>

theorem C3_merge_not_commutative:
  "merge_knowledge [((''A'', 0::real, 0::real, 0::real), \<lparr>win = 8, trials = 10\<rparr>)]
     [((''A'', 0, 0, 0), \<lparr>win = 2, trials = 10\<rparr>)]
     = [((''A'', 0, 0, 0), \<lparr>win = 9, trials = 15\<rparr>)]
   \<and> merge_knowledge [((''A'', 0::real, 0::real, 0::real), \<lparr>win = 2, trials = 10\<rparr>)]
     [((''A'', 0, 0, 0), \<lparr>win = 8, trials = 10\<rparr>)]
     = [((''A'', 0, 0, 0), \<lparr>win = 6, trials = 15\<rparr>)]"
  by (simp add: merge_entry_def py_int_def)

text \<open>
  Claim C9 (merge-id replay guard), as the code has it. \<^verbatim>\<open>merge_knowledge\<close> takes the
  remote knowledge only and remembers no earlier merge, so a repeated merge of the same
  remote is applied again: every key of the remote is blended once more with the
  remote's entry, and with non-negative local trials and at least two remote trials the
  stored trials grow strictly. Only the keys absent from the remote keep their entries.
\<close>

theorem C9_repeated_merge_reapplied:
  assumes d: "distinct (map fst remote)" and kv: "map_of remote k = Some v"
  shows "\<exists>s. map_of (merge_knowledge kn remote) k = Some s
           \<and> map_of (merge_knowledge (merge_knowledge kn remote) remote) k
               = Some (merge_entry s v)
           \<and> (0 \<le> trials s \<and> 2 \<le> trials v \<longrightarrow> trials s < trials (merge_entry s v))
           \<and> (\<forall>k'. map_of remote k' = None \<longrightarrow>
                 map_of (merge_knowledge (merge_knowledge kn remote) remote) k' = map_of kn k')"
proof -
  define s where "s = (case map_of kn k of None \<Rightarrow> v | Some prev \<Rightarrow> merge_entry prev v)"
  have a: "map_of (merge_knowledge kn remote) k = Some s"
    by (simp add: map_of_merge_knowledge [OF d] kv s_def)
  have b: "map_of (merge_knowledge (merge_knowledge kn remote) remote) k
             = Some (merge_entry s v)"
    by (simp add: map_of_merge_knowledge [OF d] kv s_def)
  have c: "0 \<le> trials s \<and> 2 \<le> trials v \<longrightarrow> trials s < trials (merge_entry s v)"
  proof
    assume h: "0 \<le> trials s \<and> 2 \<le> trials v"
    then have "trials (merge_entry s v) = trials s + trials v div 2"
      by (intro merge_entry_trials_nonneg) simp_all
    moreover from h have "1 \<le> trials v div 2" by presburger
    ultimately show "trials s < trials (merge_entry s v)" by simp
  qed
  have e: "\<forall>k'. map_of remote k' = None \<longrightarrow>
             map_of (merge_knowledge (merge_knowledge kn remote) remote) k' = map_of kn k'"
    by (simp add: map_of_merge_knowledge [OF d])
  from a b c e show ?thesis by blast
qed

theorem C9_repeated_merge_reapplied_witness:
  "distinct (map fst [((''A'', 0::real, 0::real, 0::real), \<lparr>win = 2, trials = 4\<rparr>)])
   \<and> map_of [((''A'', 0::real, 0::real, 0::real), \<lparr>win = 2, trials = 4\<rparr>)] (''A'', 0, 0, 0)
       = Some \<lparr>win = 2, trials = 4\<rparr>
   \<and> (\<exists>s. map_of (merge_knowledge [((''A'', 0, 0, 0), \<lparr>win = 1, trials = 2\<rparr>)]
                 [((''A'', 0, 0, 0), \<lparr>win = 2, trials = 4\<rparr>)]) (''A'', 0, 0, 0) = Some s
          \<and> map_of (merge_knowledge
                 (merge_knowledge [((''A'', 0, 0, 0), \<lparr>win = 1, trials = 2\<rparr>)]
                    [((''A'', 0, 0, 0), \<lparr>win = 2, trials = 4\<rparr>)])
                 [((''A'', 0, 0, 0), \<lparr>win = 2, trials = 4\<rparr>)]) (''A'', 0, 0, 0)
              = Some (merge_entry s \<lparr>win = 2, trials = 4\<rparr>)
          \<and> trials s < trials (merge_entry s \<lparr>win = 2, trials = 4\<rparr>))"
  using C9_repeated_merge_reapplied
    [of "[((''A'', 0::real, 0::real, 0::real), \<lparr>win = 2, trials = 4\<rparr>)]"
        "(''A'', 0, 0, 0)" "\<lparr>win = 2, trials = 4\<rparr>"
        "[((''A'', 0, 0, 0), \<lparr>win = 1, trials = 2\<rparr>)]"]
  by (simp add: merge_entry_def py_int_def)

text \<open>
  The claim as stated fails: merging the same remote a second time changes the entry
  from 3/6 to 4/8.
\<close>

theorem C9_duplicate_merge_changes_entries:
  "merge_knowledge [((''A'', 0::real, 0::real, 0::real), \<lparr>win = 2, trials = 4\<rparr>)]
     [((''A'', 0, 0, 0), \<lparr>win = 2, trials = 4\<rparr>)]
     = [((''A'', 0, 0, 0), \<lparr>win = 3, trials = 6\<rparr>)]
   \<and> merge_knowledge
       (merge_knowledge [((''A'', 0::real, 0::real, 0::real), \<lparr>win = 2, trials = 4\<rparr>)]
          [((''A'', 0, 0, 0), \<lparr>win = 2, trials = 4\<rparr>)])
       [((''A'', 0, 0, 0), \<lparr>win = 2, trials = 4\<rparr>)]
     = [((''A'', 0, 0, 0), \<lparr>win = 4, trials = 8\<rparr>)]"
  by (simp add: merge_entry_def py_int_def)

section \<open>Properties of the suggestion\<close>

lemma float_of_one_fifth: "float_of 0.2 = 3602879701896397 / 18014398509481984"
  by (simp add: float_of_def float_exponent_def pow2_def round_half_even_def
        bit_length.simps Let_def)

lemma float_of_ratios:
  "float_of (4 / 5) = 3602879701896397 / 4503599627370496"
  "float_of (1 / 5) = 3602879701896397 / 18014398509481984"
  "float_of (1 / 2) = 1 / 2"
  by (simp_all add: float_of_def float_exponent_def pow2_def round_half_even_def
        bit_length.simps Let_def)

lemma within_tolerance_refl: "within_tolerance c c"
proof -
  have e: "float_of (float_of c - float_of c) = 0" by (simp add: float_of_def)
  have p: "0 \<le> float_of 0.2" unfolding float_of_one_fifth by simp
  show ?thesis unfolding within_tolerance_def e using p by simp
qed

lemma within_tolerance_rounds:
  "within_tolerance 0.3 0.1" "\<not> within_tolerance 1.1 0.9" "\<not> within_tolerance 0.7 0.9"
  by (simp_all add: within_tolerance_def float_of_def float_exponent_def pow2_def
        round_half_even_def bit_length.simps Let_def)

lemma py_max_key_first_max:
  "\<exists>ys m zs. b # xs = ys @ m # zs \<and> py_max_key f b xs = m
      \<and> (\<forall>y\<in>set ys. f y < f m) \<and> (\<forall>z\<in>set zs. f z \<le> f m)"
proof (induction xs arbitrary: b)
  case Nil
  have "[b] = [] @ b # [] \<and> py_max_key f b [] = b
      \<and> (\<forall>y\<in>set []. f y < f b) \<and> (\<forall>z\<in>set []. f z \<le> f b)"
    by simp
  then show ?case by blast
next
  case (Cons x xs)
  define b' where "b' = (if f b < f x then x else b)"
  have bb: "f b \<le> f b'" and xb: "f x \<le> f b'" by (auto simp: b'_def)
  from Cons.IH [of b'] obtain ys m zs where
    split: "b' # xs = ys @ m # zs" and res: "py_max_key f b' xs = m"
    and before: "\<forall>y\<in>set ys. f y < f m" and after: "\<forall>z\<in>set zs. f z \<le> f m"
    by blast
  have r: "py_max_key f b (x # xs) = m" using res by (simp add: b'_def)
  show ?case
  proof (cases ys)
    case Nil
    with split have m: "m = b'" and zs: "zs = xs" by simp_all
    show ?thesis
    proof (cases "f b < f x")
      case True
      then have "m = x" by (simp add: m b'_def)
      then have "b # x # xs = [b] @ m # xs \<and> (\<forall>y\<in>set [b]. f y < f m)"
        using True by simp
      with r after zs show ?thesis by blast
    next
      case False
      then have mb: "m = b" by (simp add: m b'_def)
      then have "b # x # xs = [] @ m # (x # xs) \<and> (\<forall>z\<in>set (x # xs). f z \<le> f m)"
        using False after zs by auto
      with r show ?thesis by (metis empty_iff list.set(1))
    qed
  next
    case (Cons y ys')
    with split have y: "y = b'" and xs: "xs = ys' @ m # zs" by simp_all
    from before Cons y have bm: "f b' < f m" by simp
    have "b # x # xs = (b # x # ys') @ m # zs" by (simp add: xs)
    moreover have "\<forall>y\<in>set (b # x # ys'). f y < f m"
      using bb xb bm before Cons by auto
    ultimately show ?thesis using r after by blast
  qed
qed

text \<open>
  Claim C5 (exploitation), as the code has it. With curiosity 0 the random draw never
  triggers exploration. On the ledger holding exactly A with 8/10 and B with 2/10 under
  the queried context, in either order, \<^verbatim>\<open>suggest\<close> returns A. In general it returns
  nothing when no entry qualifies, and otherwise the engine of the first candidate, in
  the order of the ledger, whose ratio is maximal: every earlier candidate has a strictly
  smaller ratio and no later one has a larger ratio. Ties go to the earliest entry, the
  number of trials plays no part.
\<close>

theorem C5_suggest_exploits_first_best:
  assumes r: "0 \<le> r"
  shows "suggest [((A, fingerprint e), \<lparr>win = 8, trials = 10\<rparr>),
                  ((B, fingerprint e), \<lparr>win = 2, trials = 10\<rparr>)] 0 e r pick = Some A
       \<and> suggest [((B, fingerprint e), \<lparr>win = 2, trials = 10\<rparr>),
                  ((A, fingerprint e), \<lparr>win = 8, trials = 10\<rparr>)] 0 e r pick = Some A
       \<and> (candidates kn e = [] \<longrightarrow> suggest kn 0 e r pick = None)
       \<and> (candidates kn e \<noteq> [] \<longrightarrow>
            (\<exists>ys m zs. candidates kn e = ys @ m # zs \<and> suggest kn 0 e r pick = Some (snd m)
               \<and> (\<forall>y\<in>set ys. fst y < fst m) \<and> (\<forall>z\<in>set zs. fst z \<le> fst m)))"
proof -
  obtain n p v where fp: "fingerprint e = (n, p, v)" by (cases "fingerprint e")
  have nr: "\<not> r < 0" using r by simp
  have s1: "suggest [((A, fingerprint e), \<lparr>win = 8, trials = 10\<rparr>),
                  ((B, fingerprint e), \<lparr>win = 2, trials = 10\<rparr>)] 0 e r pick = Some A"
    using nr by (simp add: suggest_def candidates_def qualifies_def fp eff_of_def
          within_tolerance_refl float_of_ratios)
  have s2: "suggest [((B, fingerprint e), \<lparr>win = 2, trials = 10\<rparr>),
                  ((A, fingerprint e), \<lparr>win = 8, trials = 10\<rparr>)] 0 e r pick = Some A"
    using nr by (simp add: suggest_def candidates_def qualifies_def fp eff_of_def
          within_tolerance_refl float_of_ratios)
  have s3: "candidates kn e = [] \<longrightarrow> suggest kn 0 e r pick = None"
    by (simp add: suggest_def)
  have s4: "candidates kn e \<noteq> [] \<longrightarrow>
            (\<exists>ys m zs. candidates kn e = ys @ m # zs \<and> suggest kn 0 e r pick = Some (snd m)
               \<and> (\<forall>y\<in>set ys. fst y < fst m) \<and> (\<forall>z\<in>set zs. fst z \<le> fst m))"
  proof
    assume "candidates kn e \<noteq> []"
    then obtain c cs where cs: "candidates kn e = c # cs" by (cases "candidates kn e") auto
    from py_max_key_first_max [of c cs fst] obtain ys m zs where
      "c # cs = ys @ m # zs" "py_max_key fst c cs = m"
      "\<forall>y\<in>set ys. fst y < fst m" "\<forall>z\<in>set zs. fst z \<le> fst m" by blast
    moreover have "suggest kn 0 e r pick = Some (snd (py_max_key fst c cs))"
      using nr by (simp add: suggest_def cs)
    ultimately show "\<exists>ys m zs. candidates kn e = ys @ m # zs \<and> suggest kn 0 e r pick = Some (snd m)
               \<and> (\<forall>y\<in>set ys. fst y < fst m) \<and> (\<forall>z\<in>set zs. fst z \<le> fst m)"
      unfolding cs by blast
  qed
  from s1 s2 s3 s4 show ?thesis by simp
qed

theorem C5_suggest_exploits_first_best_witness:
  "(0::real) \<le> 0
   \<and> candidates [((''A'', fingerprint [(''noise'', 0.5)]), \<lparr>win = 8, trials = 10\<rparr>),
                  ((''B'', fingerprint [(''noise'', 0.5)]), \<lparr>win = 2, trials = 10\<rparr>)]
        [(''noise'', 0.5)] \<noteq> []
   \<and> suggest [((''A'', fingerprint [(''noise'', 0.5)]), \<lparr>win = 8, trials = 10\<rparr>),
               ((''B'', fingerprint [(''noise'', 0.5)]), \<lparr>win = 2, trials = 10\<rparr>)]
        0 [(''noise'', 0.5)] 0 0 = Some ''A''"
proof -
  have h: "(0::real) \<le> 0" by simp
  have c: "candidates [((''A'', fingerprint [(''noise'', 0.5)]), \<lparr>win = 8, trials = 10\<rparr>),
                  ((''B'', fingerprint [(''noise'', 0.5)]), \<lparr>win = 2, trials = 10\<rparr>)]
        [(''noise'', 0.5)] \<noteq> []"
    by (simp add: candidates_def qualifies_def fingerprint_def within_tolerance_refl)
  have "suggest [((''A'', fingerprint [(''noise'', 0.5)]), \<lparr>win = 8, trials = 10\<rparr>),
               ((''B'', fingerprint [(''noise'', 0.5)]), \<lparr>win = 2, trials = 10\<rparr>)]
        0 [(''noise'', 0.5)] 0 0 = Some ''A''"
    by (rule conjunct1 [OF C5_suggest_exploits_first_best [OF h]])
  with h c show ?thesis by (intro conjI)
qed

text \<open>
  The tie-breaking part of the claim fails: A with 4/8 and B with 8/16 have the same
  ratio, B has the most trials, and A is returned.
\<close>

theorem C5_tie_not_broken_by_trials:
  "suggest [((''A'', 0, 0, 0), \<lparr>win = 4, trials = 8\<rparr>),
            ((''B'', 0, 0, 0), \<lparr>win = 8, trials = 16\<rparr>)] 0 [] 0 0 = Some ''A''"
  by (simp add: suggest_def candidates_def qualifies_def fingerprint_def dict_get_def
        round1_def round_half_even_def eff_of_def within_tolerance_refl float_of_ratios)

text \<open>
  Claim C6. The context fingerprint is a function of the readings alone, so it is
  deterministic and has no effect on any state. Two dicts holding the same items in
  different orders give the same context, the same candidates and the same suggestion;
  and two dicts whose noise, pressure and volume readings (0 when missing) are equal
  after rounding to one decimal give the same context, whatever they differ in below
  that resolution.
\<close>

theorem C6_fingerprint_deterministic:
  "(distinct (map fst e1) \<and> distinct (map fst e2) \<and> set e1 = set e2
      \<longrightarrow> fingerprint e1 = fingerprint e2
          \<and> candidates kn e1 = candidates kn e2
          \<and> suggest kn cur e1 r pick = suggest kn cur e2 r pick)
   \<and> ((\<forall>name \<in> {''noise'', ''pressure'', ''volume''}.
          round1 (dict_get e3 name 0) = round1 (dict_get e4 name 0))
      \<longrightarrow> fingerprint e3 = fingerprint e4)"
proof (intro conjI impI)
  assume h: "distinct (map fst e1) \<and> distinct (map fst e2) \<and> set e1 = set e2"
  then have "map_of e1 = map_of e2" by (simp add: map_of_inject_set)
  then show fp: "fingerprint e1 = fingerprint e2"
    by (simp add: fingerprint_def dict_get_def)
  then show "candidates kn e1 = candidates kn e2" by (simp add: candidates_def)
  then show "suggest kn cur e1 r pick = suggest kn cur e2 r pick"
    by (simp add: suggest_def)
next
  assume "\<forall>name \<in> {''noise'', ''pressure'', ''volume''}.
          round1 (dict_get e3 name 0) = round1 (dict_get e4 name 0)"
  then show "fingerprint e3 = fingerprint e4" by (simp add: fingerprint_def)
qed

theorem C6_fingerprint_deterministic_witness:
  "distinct (map fst [(''noise'', 0.31::real), (''volume'', 2)])
   \<and> distinct (map fst [(''volume'', 2::real), (''noise'', 0.31)])
   \<and> set [(''noise'', 0.31::real), (''volume'', 2)] = set [(''volume'', 2), (''noise'', 0.31)]
   \<and> fingerprint [(''noise'', 0.31), (''volume'', 2)] = fingerprint [(''volume'', 2), (''noise'', 0.31)]
   \<and> round1 (dict_get [(''noise'', 0.31), (''volume'', 2)] ''noise'' 0)
        = round1 (dict_get [(''volume'', 2.04), (''noise'', 0.29), (''spread'', 7)] ''noise'' 0)
   \<and> round1 (dict_get [(''noise'', 0.31), (''volume'', 2)] ''pressure'' 0)
        = round1 (dict_get [(''volume'', 2.04), (''noise'', 0.29), (''spread'', 7)] ''pressure'' 0)
   \<and> round1 (dict_get [(''noise'', 0.31), (''volume'', 2)] ''volume'' 0)
        = round1 (dict_get [(''volume'', 2.04), (''noise'', 0.29), (''spread'', 7)] ''volume'' 0)
   \<and> fingerprint [(''noise'', 0.31), (''volume'', 2)]
        = fingerprint [(''volume'', 2.04), (''noise'', 0.29), (''spread'', 7)]"
proof -
  have a: "distinct (map fst [(''noise'', 0.31::real), (''volume'', 2)])
   \<and> distinct (map fst [(''volume'', 2::real), (''noise'', 0.31)])
   \<and> set [(''noise'', 0.31::real), (''volume'', 2)] = set [(''volume'', 2), (''noise'', 0.31)]"
    by auto
  have b: "round1 (dict_get [(''noise'', 0.31), (''volume'', 2)] ''noise'' 0)
        = round1 (dict_get [(''volume'', 2.04), (''noise'', 0.29), (''spread'', 7)] ''noise'' 0)"
    "round1 (dict_get [(''noise'', 0.31), (''volume'', 2)] ''pressure'' 0)
        = round1 (dict_get [(''volume'', 2.04), (''noise'', 0.29), (''spread'', 7)] ''pressure'' 0)"
    "round1 (dict_get [(''noise'', 0.31), (''volume'', 2)] ''volume'' 0)
        = round1 (dict_get [(''volume'', 2.04), (''noise'', 0.29), (''spread'', 7)] ''volume'' 0)"
    by (simp_all add: dict_get_def round1_def round_half_even_def)
  then have b': "\<forall>name \<in> {''noise'', ''pressure'', ''volume''}.
          round1 (dict_get [(''noise'', 0.31), (''volume'', 2)] name 0)
            = round1 (dict_get [(''volume'', 2.04), (''noise'', 0.29), (''spread'', 7)] name 0)"
    by blast
  note t = C6_fingerprint_deterministic
      [of "[(''noise'', 0.31), (''volume'', 2)]" "[(''volume'', 2), (''noise'', 0.31)]"
          "[]::string knowledge" 0 0 0
          "[(''noise'', 0.31), (''volume'', 2)]"
          "[(''volume'', 2.04), (''noise'', 0.29), (''spread'', 7)]"]
  from t a have c: "fingerprint [(''noise'', 0.31), (''volume'', 2)]
      = fingerprint [(''volume'', 2), (''noise'', 0.31)]" by blast
  from t b' have d: "fingerprint [(''noise'', 0.31), (''volume'', 2)]
        = fingerprint [(''volume'', 2.04), (''noise'', 0.29), (''spread'', 7)]" by blast
  from a b c d show ?thesis by blast
qed

section \<open>Properties of the population\<close>

lemma length_remove_agent:
  "length (remove_agent idx agents) =
     (if 0 \<le> idx \<and> idx < int (length agents) then length agents - 1 else length agents)"
  by (auto simp: remove_agent_def)

lemma length_retire_phase:
  "length (retire_phase w agents) =
     (if 5 < length agents \<and> w < length agents then length agents - 1 else length agents)"
  by (auto simp: retire_phase_def length_remove_agent)

lemma retire_phase_bounds:
  "5 \<le> length agents \<Longrightarrow> length agents \<le> 21 \<Longrightarrow>
     5 \<le> length (retire_phase w agents) \<and> length (retire_phase w agents) \<le> 21"
  by (auto simp: length_retire_phase)

lemma clone_phase_length:
  "length (snd (clone_phase clone b agents)) = length agents
   \<or> (length agents < 20 \<and> fst (clone_phase clone b agents) = None
       \<and> length (snd (clone_phase clone b agents)) = length agents + 1)"
  by (simp add: clone_phase_def clone_agent_def split: sum.split)

lemma clone_phase_bounds:
  assumes "5 \<le> length agents" "length agents \<le> 20"
  shows "5 \<le> length (snd (clone_phase clone b agents))
       \<and> length (snd (clone_phase clone b agents)) \<le> 20"
  using clone_phase_length [of clone b agents] assms by auto

lemma share_knowledge_length: "length (snd (share_knowledge agents)) = length agents"
  by (simp add: share_knowledge_def Let_def)

lemma clone_then_retire_bounds:
  assumes "5 \<le> length agents" "length agents \<le> 20"
  shows "5 \<le> length (retire_phase w (snd (clone_phase clone b agents)))
       \<and> length (retire_phase w (snd (clone_phase clone b agents))) \<le> 20"
  using clone_phase_bounds [OF assms, of clone b] by (auto simp: length_retire_phase)

lemma clone_phase_bounds_eq:
  assumes "clone_phase clone b agents = (r, a1)" "5 \<le> length agents" "length agents \<le> 20"
  shows "5 \<le> length a1 \<and> length a1 \<le> 20"
  using clone_phase_bounds [OF assms(2,3), of clone b] assms(1) by simp

lemma meta_reflection_bounds:
  assumes lo: "5 \<le> length agents" and hi: "length agents \<le> 20"
  shows "5 \<le> length (snd (meta_reflection perf clone agents))
       \<and> length (snd (meta_reflection perf clone agents)) \<le> 20"
  unfolding meta_reflection_def using lo hi
  by (auto split: sum.split option.split prod.split
        simp: share_knowledge_length length_retire_phase
        dest: clone_phase_bounds_eq [OF _ lo hi])

lemma act_all_length: "length (snd (act_all act agents)) = length agents"
  by (induction agents) (auto split: prod.split option.split)

lemma run_all_bounds:
  "5 \<le> length agents \<Longrightarrow> length agents \<le> 20 \<Longrightarrow>
     5 \<le> length (snd (run_all act perf clone n agents))
     \<and> length (snd (run_all act perf clone n agents)) \<le> 20"
proof (induction n arbitrary: agents)
  case 0
  then show ?case by simp
next
  case (Suc n)
  obtain r1 a1 where a: "act_all act agents = (r1, a1)" by (cases "act_all act agents")
  with act_all_length [of act agents] have l1: "length a1 = length agents" by simp
  obtain r2 a2 where m: "meta_reflection perf clone a1 = (r2, a2)"
    by (cases "meta_reflection perf clone a1")
  from meta_reflection_bounds [of a1 perf clone] m l1 Suc.prems
  have b2: "5 \<le> length a2" "length a2 \<le> 20" by simp_all
  from Suc.IH [OF b2]
  show ?case using a m l1 b2 Suc.prems by (cases r1; cases r2) simp_all
qed


lemma meta_reflection_on_gie_minds:
  "agents \<noteq> [] \<Longrightarrow>
     meta_reflection gie_mind_get_performance_metric gie_mind_clone agents
       = (Some AttributeError, agents)"
  by (cases agents) (simp_all add: meta_reflection_def gie_mind_get_performance_metric_def)

text \<open>
  Claim C1 (population size invariant). The evolution step clones only while fewer than
  20 agents live and retires only while more than 5 live. A population of between 5 and
  20 agents therefore stays between 5 and 20 at every point at which it can be
  observed: after any number of cycles, after a single evolution step, between the
  cloning and the retirement of a step, and also when a cycle is ended by an exception
  of an agent method. At 20 agents the cloning is skipped and at 5 agents the retirement
  is skipped. This holds whatever the agent methods do, in particular for GieMind agents,
  on which the step raises before it changes the population.
\<close>

theorem C1_population_bounds_preserved:
  assumes lo: "5 \<le> length agents" and hi: "length agents \<le> 20"
  shows "5 \<le> length (snd (run_all act perf clone n agents))
       \<and> length (snd (run_all act perf clone n agents)) \<le> 20
       \<and> 5 \<le> length (snd (meta_reflection perf clone agents))
       \<and> length (snd (meta_reflection perf clone agents)) \<le> 20
       \<and> 5 \<le> length (snd (clone_phase clone b agents))
       \<and> length (snd (clone_phase clone b agents)) \<le> 20
       \<and> 5 \<le> length (retire_phase w (snd (clone_phase clone b agents)))
       \<and> length (retire_phase w (snd (clone_phase clone b agents))) \<le> 20
       \<and> (length agents = 20 \<longrightarrow> clone_phase clone b agents = (None, agents))
       \<and> (length agents = 5 \<longrightarrow> retire_phase w agents = agents)"
proof -
  note r = run_all_bounds [OF lo hi, of act perf clone n]
  note m = meta_reflection_bounds [OF lo hi, of perf clone]
  note c = clone_phase_bounds [OF lo hi, of clone b]
  note t = clone_then_retire_bounds [OF lo hi, of w clone b]
  have a: "length agents = 20 \<longrightarrow> clone_phase clone b agents = (None, agents)"
    by (simp add: clone_phase_def)
  have d: "length agents = 5 \<longrightarrow> retire_phase w agents = agents"
    by (simp add: retire_phase_def)
  from r m c t a d show ?thesis by simp
qed

theorem C1_population_bounds_preserved_witness:
  "5 \<le> length (replicate 5 (init_gie_mind []))
   \<and> length (replicate 5 (init_gie_mind [])) \<le> 20
   \<and> 5 \<le> length (snd (run_all gie_mind_act gie_mind_get_performance_metric gie_mind_clone 2
                        (replicate 5 (init_gie_mind []))))
   \<and> length (snd (run_all gie_mind_act gie_mind_get_performance_metric gie_mind_clone 2
                    (replicate 5 (init_gie_mind [])))) \<le> 20
   \<and> 5 \<le> length (snd (run_all (\<lambda>a. (None, a)) (\<lambda>a. Inr (hunger a)) (\<lambda>a. Inr a) 2
                        (replicate 5 (init_gie_mind []))))
   \<and> length (snd (run_all (\<lambda>a. (None, a)) (\<lambda>a. Inr (hunger a)) (\<lambda>a. Inr a) 2
                    (replicate 5 (init_gie_mind [])))) \<le> 20
   \<and> retire_phase 0 (replicate 5 (init_gie_mind [])) = replicate 5 (init_gie_mind [])"
proof -
  have h: "5 \<le> length (replicate 5 (init_gie_mind []))"
    "length (replicate 5 (init_gie_mind [])) \<le> 20"
    and l: "length (replicate 5 (init_gie_mind [])) = 5"
    by simp_all
  note t1 = C1_population_bounds_preserved
     [OF h, where act = gie_mind_act and perf = gie_mind_get_performance_metric
        and clone = gie_mind_clone and n = 2 and w = 0]
  note t2 = C1_population_bounds_preserved
     [OF h, where act = "\<lambda>a. (None, a)" and perf = "\<lambda>a. Inr (hunger a)"
        and clone = "\<lambda>a. Inr a" and n = 2]
  from t1 l have "retire_phase 0 (replicate 5 (init_gie_mind [])) = replicate 5 (init_gie_mind [])"
    by blast
  with t1 t2 h show ?thesis by blast
qed

section \<open>Properties of the feedback statistics\<close>

lemma update_internal_state_stats: "stats (snd (update_internal_state m r)) = stats m"
  by (simp add: update_internal_state_def Let_def)

lemma receive_feedback_stats:
  "map_of (stats m) name = Some st \<Longrightarrow>
     map_of (stats (snd (receive_feedback m name True))) name
       = Some \<lparr>win = win st + 1, trials = trials st + 1\<rparr>"
  by (simp add: receive_feedback_def update_internal_state_stats update_conv')

lemma record_successes_stats:
  "map_of (stats m) name = Some st \<Longrightarrow>
     map_of (stats (record_successes n name m)) name
       = Some \<lparr>win = win st + int n, trials = trials st + int n\<rparr>"
proof (induction n arbitrary: m st)
  case 0
  then show ?case by simp
next
  case (Suc n)
  from receive_feedback_stats [OF Suc.prems]
  have "map_of (stats (record_successes n name (snd (receive_feedback m name True)))) name
       = Some \<lparr>win = (win st + 1) + int n, trials = (trials st + 1) + int n\<rparr>"
    by (rule Suc.IH [where st = "\<lparr>win = win st + 1, trials = trials st + 1\<rparr>", simplified])
  then show ?case by (simp add: add.assoc add.commute)
qed

lemma success_ratio_limit:
  assumes t: "0 \<le> trials st"
  shows "success_ratio st \<longlonglongrightarrow> 1"
proof -
  let ?w = "real_of_int (win st)" and ?t = "real_of_int (trials st)"
  have top: "LIM n sequentially. ?t + real n :> at_top"
    by (rule filterlim_tendsto_add_at_top [OF tendsto_const filterlim_real_sequentially])
  have "(\<lambda>n. (?w - ?t) / (?t + real n)) \<longlonglongrightarrow> 0"
    by (rule real_tendsto_divide_at_top [OF tendsto_const top])
  then have "(\<lambda>n. 1 + (?w - ?t) / (?t + real n)) \<longlonglongrightarrow> 1 + 0"
    by (intro tendsto_add tendsto_const)
  then have lim: "(\<lambda>n. 1 + (?w - ?t) / (?t + real n)) \<longlonglongrightarrow> 1" by simp
  have "\<forall>n\<ge>1. success_ratio st n = 1 + (?w - ?t) / (?t + real n)"
  proof (intro allI impI)
    fix n :: nat assume n: "1 \<le> n"
    with t have pos: "0 < ?t + real n" by simp
    from n t have nz: "trials st + int n \<noteq> 0" by simp
    have "1 + (?w - ?t) / (?t + real n) = (?w + real n) / (?t + real n)"
      using pos by (simp add: field_simps)
    then show "success_ratio st n = 1 + (?w - ?t) / (?t + real n)"
      using nz by (simp add: success_ratio_def)
  qed
  then have "eventually (\<lambda>n. success_ratio st n = 1 + (?w - ?t) / (?t + real n)) sequentially"
    unfolding eventually_sequentially by blast
  from tendsto_cong [OF this] lim show ?thesis by simp
qed

lemma success_ratio_mono:
  assumes w0: "0 \<le> win st" and w: "win st \<le> trials st"
  shows "success_ratio st n \<le> success_ratio st (Suc n)"
proof -
  from w0 w have t: "0 \<le> trials st" by simp
  show ?thesis
  proof (cases "trials st + int n = 0")
  case True
  with t have z: "trials st = 0" "n = 0" by simp_all
  with w0 show ?thesis by (simp add: success_ratio_def)
next
  case False
  with t have pos: "0 < real_of_int (trials st) + real n" 
    by (metis add_nonneg_nonneg of_int_0_le_iff of_int_add of_int_of_nat_eq of_nat_0_le_iff
        of_int_eq_0_iff order_less_le)
  from w have wr: "real_of_int (win st) \<le> real_of_int (trials st)" by simp
  have "(real_of_int (win st) + real n) / (real_of_int (trials st) + real n)
      \<le> (real_of_int (win st) + real n + 1) / (real_of_int (trials st) + real n + 1)"
    using pos wr by (simp add: field_simps)
  moreover from t have "trials st + int (Suc n) \<noteq> 0" by simp
  ultimately show ?thesis using False by (simp add: success_ratio_def add.commute add.left_commute)
  qed
qed

lemma get_effectiveness_ratio:
  "map_of sts name = Some \<lparr>win = win st + int n, trials = trials st + int n\<rparr> \<Longrightarrow>
     get_effectiveness sts name = Inr (success_ratio st n)"
  by (simp add: get_effectiveness_def py_truediv_def success_ratio_def)


text \<open>
  Claim C4 (repeated successes drive the ratio to 1), as the code has it. In
  \<^verbatim>\<open>GieMind.receive_feedback\<close> the statistics are kept per engine and counted up
  without any blending. For an engine whose entry holds \<open>0 \<le> wins \<le> trials\<close>, the
  effectiveness reported after \<open>n\<close> recorded successes is
  \<open>(wins + n) / (trials + n)\<close>; it never decreases with \<open>n\<close>, stays at most 1 and
  converges to 1.
\<close>

theorem C4_receive_feedback_converges:
  assumes present: "map_of (stats m) name = Some st"
    and w0: "0 \<le> win st" and wt: "win st \<le> trials st"
  shows "(\<forall>n. get_effectiveness (stats (record_successes n name m)) name
               = Inr (success_ratio st n))
       \<and> (\<forall>n. success_ratio st n \<le> success_ratio st (Suc n))
       \<and> (\<forall>n. success_ratio st n \<le> 1)
       \<and> success_ratio st \<longlonglongrightarrow> 1"
proof (intro conjI allI)
  fix n
  show "get_effectiveness (stats (record_successes n name m)) name = Inr (success_ratio st n)"
    by (rule get_effectiveness_ratio [OF record_successes_stats [OF present]])
  show "success_ratio st n \<le> success_ratio st (Suc n)"
    using w0 wt by (rule success_ratio_mono)
  show "success_ratio st n \<le> 1"
    using w0 wt by (simp add: success_ratio_def)
next
  from w0 wt have "0 \<le> trials st" by simp
  then show "success_ratio st \<longlonglongrightarrow> 1" by (rule success_ratio_limit)
qed

theorem C4_receive_feedback_converges_witness:
  "map_of (stats (init_gie_mind [''OstroznyEngine''])) ''OstroznyEngine''
     = Some \<lparr>win = 0, trials = 1\<rparr>
   \<and> get_effectiveness
        (stats (record_successes 3 ''OstroznyEngine'' (init_gie_mind [''OstroznyEngine''])))
        ''OstroznyEngine'' = Inr (3 / 4)
   \<and> success_ratio \<lparr>win = 0, trials = 1\<rparr> \<longlonglongrightarrow> 1"
proof -
  have p: "map_of (stats (init_gie_mind [''OstroznyEngine''])) ''OstroznyEngine''
     = Some \<lparr>win = 0, trials = 1\<rparr>"
    by (simp add: init_gie_mind_def)
  have a: "0 \<le> win \<lparr>win = 0, trials = 1\<rparr>"
    and b: "win \<lparr>win = 0, trials = 1\<rparr> \<le> trials \<lparr>win = 0, trials = 1\<rparr>"
    by simp_all
  note t = C4_receive_feedback_converges [OF p a b]
  from t have "get_effectiveness
        (stats (record_successes 3 ''OstroznyEngine'' (init_gie_mind [''OstroznyEngine''])))
        ''OstroznyEngine'' = Inr (success_ratio \<lparr>win = 0, trials = 1\<rparr> 3)"
    by blast
  moreover have "success_ratio \<lparr>win = 0, trials = 1\<rparr> 3 = 3 / 4"
    by (simp add: success_ratio_def)
  moreover from t have "success_ratio \<lparr>win = 0, trials = 1\<rparr> \<longlonglongrightarrow> 1" by blast
  ultimately show ?thesis using p by simp
qed

text \<open>
  The claim as stated fails for the statistics that are kept per engine and context and
  blended with the adaptivity factor 0.5, those of \<^verbatim>\<open>MetaReflection.update\<close>. One more
  success recorded on the entry 8/10 gives 5/6 and the next one 3/4, a smaller ratio;
  and the entry 1/2 is left as it is by every further success, so the ratio stays at
  one half.
\<close>

theorem C4_adaptivity_blend_stalls:
  "update 0.5 [((''A'', 0, 0, 0), \<lparr>win = 8, trials = 10\<rparr>)]
      [\<lparr>h_env = [], h_engine = ''A'', h_score = 1\<rparr>]
     = [((''A'', 0, 0, 0), \<lparr>win = 5, trials = 6\<rparr>)]
   \<and> update 0.5 [((''A'', 0, 0, 0), \<lparr>win = 5, trials = 6\<rparr>)]
      [\<lparr>h_env = [], h_engine = ''A'', h_score = 1\<rparr>]
     = [((''A'', 0, 0, 0), \<lparr>win = 3, trials = 4\<rparr>)]
   \<and> update 0.5 [((''A'', 0, 0, 0), \<lparr>win = 1, trials = 2\<rparr>)]
      [\<lparr>h_env = [], h_engine = ''A'', h_score = 1\<rparr>]
     = [((''A'', 0, 0, 0), \<lparr>win = 1, trials = 2\<rparr>)]"
  by (simp add: update_def fingerprint_def dict_get_def round1_def round_half_even_def
        blend_def py_int_def)

section \<open>Properties of the sensors\<close>

lemma sqrt_256_25: "sqrt (256 / 25) = 16 / 5"
proof -
  have "sqrt ((16 / 5)\<^sup>2) = \<bar>16 / 5\<bar>" by (rule real_sqrt_abs)
  moreover have "((16::real) / 5)\<^sup>2 = 256 / 25" by (simp add: power2_eq_square)
  ultimately show ?thesis by simp
qed

lemma quiet_stats:
  "np_mean [1] = 1" "np_std [1] = 0"
  "np_mean [1,1] = 1" "np_std [1,1] = 0"
  "np_mean [1,1,1] = 1" "np_std [1,1,1] = 0"
  "np_mean [1,1,1,1] = 1" "np_std [1,1,1,1] = 0"
  "np_mean [1,1,1,1,1] = 1" "np_std [1,1,1,1,1] = 0"
  by (simp_all add: np_std_def np_mean_def)

lemma spike_mean: "np_mean [1,1,1,1,9] = 13 / 5"
  by (simp add: np_mean_def)

lemma spike_std: "np_std [1,1,1,1,9] = 16 / 5"
proof -
  have "np_mean (map (\<lambda>x. (x - 13 / 5)\<^sup>2) [1,1,1,1,9]) = 256 / 25"
    by (simp add: np_mean_def power2_eq_square)
  then show ?thesis by (simp only: np_std_def spike_mean sqrt_256_25)
qed

lemma noise_read_core:
  assumes "window s = w" "base_level s = b" "learning_rate s = l" "buffer s = buf"
    "sensor_hunger s = h"
    and buf': "buf' = (if w < Suc (length buf) then tl (buf @ [x]) else buf @ [x])"
    and a: "a = ((b + l * (np_std buf' + h)) * 2 < \<bar>x - np_mean buf'\<bar>)"
    and res: "res = noise_sensor_read s (Some [(''noise'', x)])"
  shows "map_option r_anomaly (fst res) = Some a \<and> window (snd res) = w
       \<and> base_level (snd res) = b \<and> learning_rate (snd res) = l \<and> buffer (snd res) = buf'
       \<and> sensor_hunger (snd res) = (if a then max 0 (h - 1) else h + 0.1)"
  unfolding res a buf' assms(1-5) [symmetric]
  by (simp add: noise_sensor_read_def sensor_read_def missing_input_def Let_def)


lemma feed_noise_Cons:
  "fst (feed_noise s (v # vs))
     = fst (noise_sensor_read s (Some [(''noise'', v)]))
       # fst (feed_noise (snd (noise_sensor_read s (Some [(''noise'', v)]))) vs)"
  "snd (feed_noise s (v # vs))
     = snd (feed_noise (snd (noise_sensor_read s (Some [(''noise'', v)]))) vs)"
  by (simp_all split: prod.splits)

lemma noise_scenario:
  fixes nm :: string
  defines "s0 \<equiv> init_sensor nm 5"
  shows "map (map_option r_anomaly) (fst (feed_noise s0 [1, 1, 1, 1, 1, 9]))
           = [Some False, Some False, Some False, Some False, Some False, Some True]"
    and "sensor_hunger (snd (feed_noise s0 [1, 1, 1, 1, 1])) = 1 / 2"
    and "sensor_hunger (snd (feed_noise s0 [1, 1, 1, 1, 1, 9])) = 0"
proof -
  define r1 where "r1 = noise_sensor_read s0 (Some [(''noise'', 1)])"
  define r2 where "r2 = noise_sensor_read (snd r1) (Some [(''noise'', 1)])"
  define r3 where "r3 = noise_sensor_read (snd r2) (Some [(''noise'', 1)])"
  define r4 where "r4 = noise_sensor_read (snd r3) (Some [(''noise'', 1)])"
  define r5 where "r5 = noise_sensor_read (snd r4) (Some [(''noise'', 1)])"
  define r6 where "r6 = noise_sensor_read (snd r5) (Some [(''noise'', 9)])"
  have c0: "window s0 = 5" "base_level s0 = 1" "learning_rate s0 = 1 / 10" "buffer s0 = []"
    "sensor_hunger s0 = 0"
    by (simp_all add: s0_def init_sensor_def)
  have c1: "map_option r_anomaly (fst r1) = Some False \<and> window (snd r1) = 5
       \<and> base_level (snd r1) = 1 \<and> learning_rate (snd r1) = 1 / 10 \<and> buffer (snd r1) = [1]
       \<and> sensor_hunger (snd r1) = 1 / 10"
    using noise_read_core [OF c0 refl refl r1_def] by (simp add: quiet_stats)
  have c2: "map_option r_anomaly (fst r2) = Some False \<and> window (snd r2) = 5
       \<and> base_level (snd r2) = 1 \<and> learning_rate (snd r2) = 1 / 10 \<and> buffer (snd r2) = [1, 1]
       \<and> sensor_hunger (snd r2) = 2 / 10"
    using noise_read_core [of "snd r1" 5 1 "1 / 10" "[1]" "1 / 10", OF _ _ _ _ _ refl refl r2_def] c1
    by (simp add: quiet_stats)
  have c3: "map_option r_anomaly (fst r3) = Some False \<and> window (snd r3) = 5
       \<and> base_level (snd r3) = 1 \<and> learning_rate (snd r3) = 1 / 10
       \<and> buffer (snd r3) = [1, 1, 1] \<and> sensor_hunger (snd r3) = 3 / 10"
    using noise_read_core [of "snd r2" 5 1 "1 / 10" "[1, 1]" "2 / 10", OF _ _ _ _ _ refl refl r3_def] c2
    by (simp add: quiet_stats)
  have c4: "map_option r_anomaly (fst r4) = Some False \<and> window (snd r4) = 5
       \<and> base_level (snd r4) = 1 \<and> learning_rate (snd r4) = 1 / 10
       \<and> buffer (snd r4) = [1, 1, 1, 1] \<and> sensor_hunger (snd r4) = 4 / 10"
    using noise_read_core [of "snd r3" 5 1 "1 / 10" "[1, 1, 1]" "3 / 10", OF _ _ _ _ _ refl refl r4_def] c3
    by (simp add: quiet_stats)
  have c5: "map_option r_anomaly (fst r5) = Some False \<and> window (snd r5) = 5
       \<and> base_level (snd r5) = 1 \<and> learning_rate (snd r5) = 1 / 10
       \<and> buffer (snd r5) = [1, 1, 1, 1, 1] \<and> sensor_hunger (snd r5) = 5 / 10"
    using noise_read_core [of "snd r4" 5 1 "1 / 10" "[1, 1, 1, 1]" "4 / 10", OF _ _ _ _ _ refl refl r5_def] c4
    by (simp add: quiet_stats)
  have c6: "map_option r_anomaly (fst r6) = Some True \<and> sensor_hunger (snd r6) = 0"
    using noise_read_core [of "snd r5" 5 1 "1 / 10" "[1, 1, 1, 1, 1]" "5 / 10", OF _ _ _ _ _ refl refl r6_def] c5
    by (simp add: spike_mean spike_std)
  have f5: "snd (feed_noise s0 [1, 1, 1, 1, 1]) = snd r5"
    by (simp add: feed_noise_Cons r1_def r2_def r3_def r4_def r5_def del: feed_noise.simps(2))
  have f6: "snd (feed_noise s0 [1, 1, 1, 1, 1, 9]) = snd r6"
    by (simp add: feed_noise_Cons r1_def r2_def r3_def r4_def r5_def r6_def del: feed_noise.simps(2))
  have g6: "fst (feed_noise s0 [1, 1, 1, 1, 1, 9]) = [fst r1, fst r2, fst r3, fst r4, fst r5, fst r6]"
    by (simp add: feed_noise_Cons r1_def r2_def r3_def r4_def r5_def r6_def del: feed_noise.simps(2))
  show "map (map_option r_anomaly) (fst (feed_noise s0 [1, 1, 1, 1, 1, 9]))
           = [Some False, Some False, Some False, Some False, Some False, Some True]"
    unfolding g6 using c1 c2 c3 c4 c5 c6 by simp
  show "sensor_hunger (snd (feed_noise s0 [1, 1, 1, 1, 1])) = 1 / 2"
    unfolding f5 using c5 by simp
  show "sensor_hunger (snd (feed_noise s0 [1, 1, 1, 1, 1, 9])) = 0"
    unfolding f6 using c6 by simp
qed

lemma noise_read_hunger:
  "sensor_hunger (snd (noise_sensor_read s (Some [(''noise'', x)])))
     = (if map_option r_anomaly (fst (noise_sensor_read s (Some [(''noise'', x)]))) = Some True
        then max 0 (sensor_hunger s - 1) else sensor_hunger s + 0.1)"
  using noise_read_core [OF refl refl refl refl refl refl refl refl, of s x] by auto

text \<open>
  Claim C7 (anomaly scenario). A noise sensor with window 5 and the default base level
  1.0 and learning rate 0.1 is fed 1, 1, 1, 1, 1, 9. The first five readings are not
  anomalous and bring the hunger to 0.5; the sixth reading is flagged as an anomaly, and
  the hunger after it is the hunger before it minus the fixed decrement 1, not going
  below zero: \<open>max 0 (0.5 - 1) = 0\<close>. In general a read sets the hunger to
  \<open>max 0 (hunger - 1)\<close> on an anomaly and to \<open>hunger + 0.1\<close> otherwise.
\<close>

theorem C7_anomaly_scenario:
  "map (map_option r_anomaly) (fst (feed_noise (init_sensor nm 5) [1, 1, 1, 1, 1, 9]))
     = [Some False, Some False, Some False, Some False, Some False, Some True]
   \<and> sensor_hunger (snd (feed_noise (init_sensor nm 5) [1, 1, 1, 1, 1])) = 1 / 2
   \<and> sensor_hunger (snd (feed_noise (init_sensor nm 5) [1, 1, 1, 1, 1, 9])) = 0
   \<and> sensor_hunger (snd (feed_noise (init_sensor nm 5) [1, 1, 1, 1, 1, 9]))
       = max 0 (sensor_hunger (snd (feed_noise (init_sensor nm 5) [1, 1, 1, 1, 1])) - 1)
   \<and> sensor_hunger (snd (noise_sensor_read s (Some [(''noise'', x)])))
       = (if map_option r_anomaly (fst (noise_sensor_read s (Some [(''noise'', x)]))) = Some True
          then max 0 (sensor_hunger s - 1) else sensor_hunger s + 0.1)"
proof -
  note sc = noise_scenario [of nm]
  have "sensor_hunger (snd (feed_noise (init_sensor nm 5) [1, 1, 1, 1, 1, 9]))
       = max 0 (sensor_hunger (snd (feed_noise (init_sensor nm 5) [1, 1, 1, 1, 1])) - 1)"
    unfolding sc by simp
  with sc noise_read_hunger [of s x] show ?thesis by (intro conjI)
qed

lemma sensor_read_missing:
  "missing_input field tick \<Longrightarrow> sensor_read field rule inc ceil s tick = (None, s)"
  by (simp add: sensor_read_def)

lemma level_read_missing:
  "missing_input field tick \<Longrightarrow>
   level_read field entry inc growth hungry keep pattern_of info_of now s tick
     = (Inr (Some (ls_result s 0 False 0 0 ''Brak tick_data'' ''low'')), s)"
  by (simp add: level_read_def)

text \<open>
  Claim C8 (missing or malformed observation), as the code has it. An input is missing
  when the tick is \<^verbatim>\<open>None\<close> or a dict without the sensor's field (the empty dict
  included). On such an input every \<^verbatim>\<open>read\<close> but one returns normally and leaves the
  sensor state (buffer, hunger, adaptive threshold, history, growth signal) as it was:
  the noise, pressure and volume sensors of \<^verbatim>\<open>base_sensor.py\<close> return \<^verbatim>\<open>None\<close>; the
  SuperNoiseSensor, the SuperPressureSensor and the SuperVolumeSensor of
  \<^verbatim>\<open>sensors/\<close> return a reading of level low with all measures zero, no anomaly and
  the text "Brak tick_data"; the SuperAggressiveSensor returns the empty dict for a dict
  without a price. The exception is the SuperAggressiveSensor called with \<^verbatim>\<open>None\<close>: it
  raises AttributeError, its state unchanged as well.
\<close>

theorem C8_missing_input_changes_nothing:
  "(missing_input ''noise'' tick \<longrightarrow> noise_sensor_read s tick = (None, s))
   \<and> (missing_input ''pressure'' tick \<longrightarrow> pressure_sensor_read s tick = (None, s))
   \<and> (missing_input ''volume'' tick \<longrightarrow> volume_sensor_read s tick = (None, s))
   \<and> (missing_input ''price'' tick \<longrightarrow>
        super_noise_read pattern_of info_of now sn tick
          = (Inr (Some (sn_result sn 0 False 0 0 0 0 ''Brak tick_data'' ''low'')), sn))
   \<and> (missing_input ''pressure'' tick \<longrightarrow>
        super_pressure_read level_pattern_of level_info_of now sp tick
          = (Inr (Some (ls_result sp 0 False 0 0 ''Brak tick_data'' ''low'')), sp))
   \<and> (missing_input ''volume'' tick \<longrightarrow>
        super_volume_read level_pattern_of level_info_of now sv tick
          = (Inr (Some (ls_result sv 0 False 0 0 ''Brak tick_data'' ''low'')), sv))
   \<and> (map_of td ''price'' = None \<longrightarrow>
        sag_read analyze_tick now sg (Some td) = (Inr EmptyDict, sg))
   \<and> sag_read analyze_tick now sg None = (Inl AttributeError, sg)
   \<and> (missing_input field tick \<longleftrightarrow>
        tick = None \<or> (\<exists>td. tick = Some td \<and> field \<notin> fst ` set td))"
proof (intro conjI impI)
  assume "missing_input ''noise'' tick"
  then show "noise_sensor_read s tick = (None, s)"
    unfolding noise_sensor_read_def by (rule sensor_read_missing)
next
  assume "missing_input ''pressure'' tick"
  then show "pressure_sensor_read s tick = (None, s)"
    unfolding pressure_sensor_read_def by (rule sensor_read_missing)
next
  assume "missing_input ''volume'' tick"
  then show "volume_sensor_read s tick = (None, s)"
    unfolding volume_sensor_read_def by (rule sensor_read_missing)
next
  assume "missing_input ''price'' tick"
  then show "super_noise_read pattern_of info_of now sn tick
          = (Inr (Some (sn_result sn 0 False 0 0 0 0 ''Brak tick_data'' ''low'')), sn)"
    by (simp add: super_noise_read_def)
next
  assume "missing_input ''pressure'' tick"
  then show "super_pressure_read level_pattern_of level_info_of now sp tick
          = (Inr (Some (ls_result sp 0 False 0 0 ''Brak tick_data'' ''low'')), sp)"
    unfolding super_pressure_read_def by (rule level_read_missing)
next
  assume "missing_input ''volume'' tick"
  then show "super_volume_read level_pattern_of level_info_of now sv tick
          = (Inr (Some (ls_result sv 0 False 0 0 ''Brak tick_data'' ''low'')), sv)"
    unfolding super_volume_read_def by (rule level_read_missing)
next
  assume "map_of td ''price'' = None"
  then show "sag_read analyze_tick now sg (Some td) = (Inr EmptyDict, sg)"
    by (simp add: sag_read_def)
next
  show "sag_read analyze_tick now sg None = (Inl AttributeError, sg)"
    by (simp add: sag_read_def)
next
  show "missing_input field tick \<longleftrightarrow>
        tick = None \<or> (\<exists>td. tick = Some td \<and> field \<notin> fst ` set td)"
    by (cases tick) (auto simp: missing_input_def map_of_eq_None_iff)
qed

theorem C8_missing_input_changes_nothing_witness:
  "missing_input ''noise'' (Some [(''time'', 3)])
   \<and> noise_sensor_read (init_sensor ''NoiseX'' 5) (Some [(''time'', 3)])
       = (None, init_sensor ''NoiseX'' 5)
   \<and> missing_input ''pressure'' (Some [(''time'', 3)])
   \<and> pressure_sensor_read (init_sensor ''NoiseX'' 5) (Some [(''time'', 3)])
       = (None, init_sensor ''NoiseX'' 5)
   \<and> missing_input ''volume'' (Some [(''time'', 3)])
   \<and> volume_sensor_read (init_sensor ''NoiseX'' 5) (Some [(''time'', 3)])
       = (None, init_sensor ''NoiseX'' 5)
   \<and> missing_input ''price'' (Some [(''time'', 3)])
   \<and> super_noise_read (\<lambda>v j a b p. []) (\<lambda>l v j p h. []) 0
         (init_super_noise_sensor ''SuperNoise_1'') (Some [(''time'', 3)])
       = (Inr (Some (sn_result (init_super_noise_sensor ''SuperNoise_1'') 0 False 0 0 0 0
                 ''Brak tick_data'' ''low'')), init_super_noise_sensor ''SuperNoise_1'')
   \<and> super_pressure_read (\<lambda>m d a b k. []) (\<lambda>l x m d k h. []) 0
         (init_super_pressure_sensor ''SuperPressure_1'') (Some [(''time'', 3)])
       = (Inr (Some (ls_result (init_super_pressure_sensor ''SuperPressure_1'') 0 False 0 0
                 ''Brak tick_data'' ''low'')), init_super_pressure_sensor ''SuperPressure_1'')
   \<and> super_volume_read (\<lambda>m d a b k. []) (\<lambda>l x m d k h. []) 0
         (init_super_volume_sensor ''SuperVolume_1'') (Some [(''time'', 3)])
       = (Inr (Some (ls_result (init_super_volume_sensor ''SuperVolume_1'') 0 False 0 0
                 ''Brak tick_data'' ''low'')), init_super_volume_sensor ''SuperVolume_1'')
   \<and> map_of [(''time'', 3::real)] ''price'' = None
   \<and> sag_read (\<lambda>t ps ss ts rs v g. (Inr (), g)) 0 init_sag_sensor (Some [(''time'', 3)])
       = (Inr EmptyDict, init_sag_sensor)"
proof -
  have m: "missing_input ''noise'' (Some [(''time'', 3)])"
    "missing_input ''pressure'' (Some [(''time'', 3)])"
    "missing_input ''volume'' (Some [(''time'', 3)])"
    "missing_input ''price'' (Some [(''time'', 3)])"
    "map_of [(''time'', 3::real)] ''price'' = None"
    by (simp_all add: missing_input_def)
  from C8_missing_input_changes_nothing
         [where tick = "Some [(''time'', 3)]" and s = "init_sensor ''NoiseX'' 5"
            and sn = "init_super_noise_sensor ''SuperNoise_1''"
            and sp = "init_super_pressure_sensor ''SuperPressure_1''"
            and sv = "init_super_volume_sensor ''SuperVolume_1''"
            and sg = init_sag_sensor and td = "[(''time'', 3)]"
            and pattern_of = "\<lambda>v j a b p. []" and info_of = "\<lambda>l v j p h. []"
            and level_pattern_of = "\<lambda>m d a b k. []" and level_info_of = "\<lambda>l x m d k h. []"
            and analyze_tick = "\<lambda>t ps ss ts rs v g. (Inr (), g)" and now = 0] m
  show ?thesis by (intro conjI) (rule m | blast)+
qed

text \<open>
  The claim as stated fails. A fresh SuperNoiseSensor, SuperPressureSensor or
  SuperVolumeSensor that reads \<^verbatim>\<open>None\<close> returns a reading, not a null value, and a
  SuperAggressiveSensor that reads \<^verbatim>\<open>None\<close> raises AttributeError.
\<close>

theorem C8_super_noise_reading_not_null:
  "super_noise_read (\<lambda>v j a b p. []) (\<lambda>l v j p h. []) 0
     (init_super_noise_sensor ''SuperNoise_1'') None
     = (Inr (Some \<lparr>n_id = ''SuperNoise_1'', n_volatility = 0, n_anomaly = False,
              n_max_jump = 0, n_pressure = 0, n_micro_spikes = 0, n_micro_lulls = 0,
              n_info = ''Brak tick_data'', n_hunger = 0, n_growth_signal = False,
              n_level = ''low''\<rparr>),
        init_super_noise_sensor ''SuperNoise_1'')
   \<and> super_pressure_read (\<lambda>m d a b k. []) (\<lambda>l x m d k h. []) 0
       (init_super_pressure_sensor ''SuperPressure_1'') None
     = (Inr (Some \<lparr>l_id = ''SuperPressure_1'', l_mean = 0, l_anomaly = False, l_std = 0,
              l_trend = 0, l_info = ''Brak tick_data'', l_hunger = 0,
              l_growth_signal = False, l_level = ''low''\<rparr>),
        init_super_pressure_sensor ''SuperPressure_1'')
   \<and> super_volume_read (\<lambda>m d a b k. []) (\<lambda>l x m d k h. []) 0
       (init_super_volume_sensor ''SuperVolume_1'') None
     = (Inr (Some \<lparr>l_id = ''SuperVolume_1'', l_mean = 0, l_anomaly = False, l_std = 0,
              l_trend = 0, l_info = ''Brak tick_data'', l_hunger = 0,
              l_growth_signal = False, l_level = ''low''\<rparr>),
        init_super_volume_sensor ''SuperVolume_1'')
   \<and> sag_read (\<lambda>t ps ss ts rs v g. (Inr (), g)) 0 init_sag_sensor None
     = (Inl AttributeError, init_sag_sensor)"
  by (simp add: super_noise_read_def super_pressure_read_def super_volume_read_def
      level_read_def sag_read_def missing_input_def sn_result_def ls_result_def
      init_super_noise_sensor_def init_super_pressure_sensor_def init_super_volume_sensor_def)

section \<open>Properties of the control loop and the guardian\<close>

lemma update_internal_state_log:
  "\<exists>ext. logged (snd (update_internal_state m r)) = logged m @ ext"
  by (simp add: update_internal_state_def Let_def)

lemma receive_feedback_log:
  "\<exists>ext. logged (snd (receive_feedback m name success)) = logged m @ ext"
proof (cases "map_of (stats m) name")
  case None
  then show ?thesis by (simp add: receive_feedback_def)
next
  case (Some st)
  let ?m1 = "m\<lparr>stats := AList.update name
       \<lparr>win = win st + (if success then 1 else 0), trials = trials st + 1\<rparr> (stats m)\<rparr>"
  from update_internal_state_log [of ?m1 "of_int (if success then 1 else 0)"]
  show ?thesis using Some by (simp add: receive_feedback_def Let_def)
qed

lemma choose_engine_log:
  "\<exists>ext. logged (snd (choose_engine m e r c)) = logged m @ ext"
  by (simp add: choose_engine_def Let_def split: option.split sum.split list.split)

lemma reflect_log: "\<exists>ext. logged (reflect chk m name) = logged m @ ext"
  by (simp add: reflect_def)

lemma run_step_log:
  "\<exists>rest. logged (snd (run_step inp chk run_nr i m)) = logged m @ Krok (i + 1) (run_nr + 1) # rest"
proof -
  let ?m1 = "m\<lparr>logged := logged m @ [Krok (i + 1) (run_nr + 1), EnvRead]\<rparr>"
  obtain res m2 where ce: "choose_engine ?m1 (in_environment inp) (in_explore inp) (in_choice inp)
      = (res, m2)" by (cases "choose_engine ?m1 (in_environment inp) (in_explore inp) (in_choice inp)")
  from choose_engine_log [of ?m1 "in_environment inp" "in_explore inp" "in_choice inp"] ce
  obtain e2 where l2: "logged m2 = logged m @ Krok (i + 1) (run_nr + 1) # EnvRead # e2" by auto
  show ?thesis
  proof (cases res)
    case (Inl err)
    then show ?thesis using ce l2 by (simp add: run_step_def Let_def)
  next
    case (Inr engine)
    define name where "name = (case engine of None \<Rightarrow> ''NoneType'' | Some n \<Rightarrow> n)"
    show ?thesis
    proof (cases "get_effectiveness (stats m2) name")
      case (Inl err)
      then show ?thesis using ce l2 Inr by (simp add: run_step_def Let_def name_def)
    next
      case (Inr eff)
      obtain err m3 where rf: "receive_feedback m2 name (in_success inp < eff) = (err, m3)"
        by (cases "receive_feedback m2 name (in_success inp < eff)")
      from receive_feedback_log [of m2 name "in_success inp < eff"] rf
      obtain e3 where l3: "logged m3 = logged m2 @ e3" by auto
      from reflect_log [of chk m3 name] obtain e4 where
        l4: "logged (reflect chk m3 name) = logged m3 @ e4" by blast
      show ?thesis
        using ce \<open>res = Inr engine\<close> Inr rf l2 l3 l4
        by (cases err) (simp_all add: run_step_def Let_def name_def)
    qed
  qed
qed

lemma run_steps_log:
  "\<exists>ext. logged (snd (run_steps inputs chk run_nr i k m)) = logged m @ ext"
proof (induction k arbitrary: i m)
  case 0
  show ?case by simp
next
  case (Suc k)
  obtain err m' where st: "run_step (inputs run_nr i) chk run_nr i m = (err, m')"
    by (cases "run_step (inputs run_nr i) chk run_nr i m")
  from run_step_log [of "inputs run_nr i" chk run_nr i m] st
  obtain rest where l1: "logged m' = logged m @ Krok (i + 1) (run_nr + 1) # rest" by auto
  from Suc.IH [of "Suc i" m'] obtain ext where
    l2: "logged (snd (run_steps inputs chk run_nr (Suc i) k m')) = logged m' @ ext" by blast
  show ?case using st l1 l2 by (cases err) simp_all
qed

lemma run_steps_first:
  "0 < k \<Longrightarrow>
     \<exists>rest. logged (snd (run_steps inputs chk run_nr i k m))
        = logged m @ Krok (i + 1) (run_nr + 1) # rest"
proof -
  assume "0 < k"
  then obtain k' where k: "k = Suc k'" by (cases k) auto
  obtain err m' where st: "run_step (inputs run_nr i) chk run_nr i m = (err, m')"
    by (cases "run_step (inputs run_nr i) chk run_nr i m")
  from run_step_log [of "inputs run_nr i" chk run_nr i m] st
  obtain rest where l1: "logged m' = logged m @ Krok (i + 1) (run_nr + 1) # rest" by auto
  from run_steps_log [of inputs chk run_nr "Suc i" k' m'] obtain ext where
    l2: "logged (snd (run_steps inputs chk run_nr (Suc i) k' m')) = logged m' @ ext" by blast
  show ?thesis using st l1 l2 unfolding k by (cases err) simp_all
qed

lemma run_cycles_log:
  "\<exists>ext. logged (snd (run_cycles inputs chk n run_nr c m)) = logged m @ ext"
proof (induction c arbitrary: run_nr m)
  case 0
  show ?case by simp
next
  case (Suc c)
  obtain err m' where st: "run_steps inputs chk run_nr 0 n m = (err, m')"
    by (cases "run_steps inputs chk run_nr 0 n m")
  from run_steps_log [of inputs chk run_nr 0 n m] st
  obtain e1 where l1: "logged m' = logged m @ e1" by auto
  from Suc.IH [of "Suc run_nr" "clone_self m'"] obtain ext where
    l2: "logged (snd (run_cycles inputs chk n (Suc run_nr) c (clone_self m')))
           = logged (clone_self m') @ ext" by blast
  show ?case using st l1 l2 by (cases err) (simp_all add: clone_self_def)
qed

lemma run_cycles_first:
  assumes "0 < n" "0 < c"
  shows "\<exists>rest. logged (snd (run_cycles inputs chk n run_nr c m))
           = logged m @ Krok 1 (run_nr + 1) # rest"
proof -
  from assms(2) obtain c' where c: "c = Suc c'" by (cases c) auto
  obtain err m' where st: "run_steps inputs chk run_nr 0 n m = (err, m')"
    by (cases "run_steps inputs chk run_nr 0 n m")
  from run_steps_first [OF assms(1), of inputs chk run_nr 0 m] st
  obtain rest where l1: "logged m' = logged m @ Krok 1 (run_nr + 1) # rest" by auto
  from run_cycles_log [of inputs chk n "Suc run_nr" c' "clone_self m'"] obtain ext where
    l2: "logged (snd (run_cycles inputs chk n (Suc run_nr) c' (clone_self m')))
           = logged (clone_self m') @ ext" by blast
  show ?thesis
    using st l1 l2 unfolding c by (cases err) (simp_all add: clone_self_def)
qed

lemma run_first_step:
  assumes "0 < self_steps"
  shows "\<exists>rest. logged (snd (run inputs chk self_steps m)) = logged m @ Krok 1 1 # rest"
  using run_cycles_first [OF assms, of 3 inputs chk 0 m] by (simp add: run_def)

lemma monitor_all_only_logs:
  "(snd (monitor_all g m))\<lparr>logged := logged m\<rparr> = m"
  by (simp add: monitor_all_def Let_def check_drawdown_def check_open_trades_def
        check_grid_risk_def check_equity_margin_def predict_risk_def get_open_grids_def
        get_open_trades_def reduce_exposure_def limit_open_trades_def
        emergency_margin_action_def)


lemma emergency_margin_action_only_logs: "(emergency_margin_action m)\<lparr>logged := logged m\<rparr> = m"
  by (simp add: emergency_margin_action_def)

text \<open>
  Claim C2 (guardian precedence), as the code has it. No gating flag is shared: a
  monitoring cycle of the guardian, whatever corrective actions it invokes, changes
  nothing in the GieMind but its log, and so does the emergency action alone; and a run
  with at least one step starts its first step (KROK 1 of run 1) in the state the
  guardian leaves behind, whatever that state is.
\<close>

theorem C2_run_is_not_gated:
  "(snd (monitor_all g m))\<lparr>logged := logged m\<rparr> = m
   \<and> (emergency_margin_action m)\<lparr>logged := logged m\<rparr> = m
   \<and> (0 < self_steps \<longrightarrow>
        (\<exists>rest. logged (snd (run inputs check_action self_steps (snd (monitor_all g m))))
                  = logged (snd (monitor_all g m)) @ Krok 1 1 # rest))"
proof (intro conjI impI)
  show "(snd (monitor_all g m))\<lparr>logged := logged m\<rparr> = m" by (rule monitor_all_only_logs)
  show "(emergency_margin_action m)\<lparr>logged := logged m\<rparr> = m"
    by (rule emergency_margin_action_only_logs)
next
  assume "0 < self_steps"
  then show "\<exists>rest. logged (snd (run inputs check_action self_steps (snd (monitor_all g m))))
                  = logged (snd (monitor_all g m)) @ Krok 1 1 # rest"
    by (rule run_first_step)
qed

lemma guardian_emergency_example:
  "snd (monitor_all \<lparr>config = default_config\<lparr>min_equity_margin := 6000\<rparr>, meta_log = []\<rparr>
          ((init_gie_mind [''OstroznyEngine''])
             \<lparr>knowledge := [((''OstroznyEngine'', 0, 0, 0), \<lparr>win = 4, trials = 5\<rparr>)]\<rparr>))
     = (init_gie_mind [''OstroznyEngine''])
         \<lparr>knowledge := [((''OstroznyEngine'', 0, 0, 0), \<lparr>win = 4, trials = 5\<rparr>)],
           logged := [EmergencyMarginAction]\<rparr>"
  by (simp add: monitor_all_def Let_def check_drawdown_def check_open_trades_def
        check_grid_risk_def check_equity_margin_def predict_risk_def get_open_grids_def
        get_open_trades_def get_margin_level_def get_equity_def get_total_capital_def
        default_config_def emergency_margin_action_def init_gie_mind_def)

theorem C2_run_is_not_gated_witness:
  "(0::nat) < 1
   \<and> (\<exists>rest. logged (snd (run (\<lambda>run_nr i. \<lparr>in_environment = [], in_explore = 0.9,
                                       in_choice = 0, in_success = 0.5\<rparr>)
                    (\<lambda>name. True) 1
                    (snd (monitor_all
                       \<lparr>config = default_config\<lparr>min_equity_margin := 6000\<rparr>, meta_log = []\<rparr>
                       ((init_gie_mind [''OstroznyEngine''])
                          \<lparr>knowledge := [((''OstroznyEngine'', 0, 0, 0),
                                          \<lparr>win = 4, trials = 5\<rparr>)]\<rparr>)))))
         = [EmergencyMarginAction] @ Krok 1 1 # rest)"
proof -
  have h: "(0::nat) < 1" by simp
  from C2_run_is_not_gated
         [where self_steps = 1
            and g = "\<lparr>config = default_config\<lparr>min_equity_margin := 6000\<rparr>, meta_log = []\<rparr>"
            and m = "(init_gie_mind [''OstroznyEngine''])
                       \<lparr>knowledge := [((''OstroznyEngine'', 0, 0, 0), \<lparr>win = 4, trials = 5\<rparr>)]\<rparr>"
            and inputs = "\<lambda>run_nr i. \<lparr>in_environment = [], in_explore = 0.9,
                                       in_choice = 0, in_success = 0.5\<rparr>"
            and check_action = "\<lambda>name. True"] h
  show ?thesis unfolding guardian_emergency_example by simp
qed

text \<open>
  The claim as stated fails. With a margin floor of 6000 in the configuration the
  guardian's monitoring cycle invokes the emergency margin action on the GieMind. The run
  called next starts its step all the same: it selects the engine, counts a trial in its
  statistics and adapts the motivational state, before \<^verbatim>\<open>update_internal_state\<close>
  raises as it always does.
\<close>

theorem C2_dispatch_after_emergency:
  "logged (snd (monitor_all
       \<lparr>config = default_config\<lparr>min_equity_margin := 6000\<rparr>, meta_log = []\<rparr>
       ((init_gie_mind [''OstroznyEngine''])
          \<lparr>knowledge := [((''OstroznyEngine'', 0, 0, 0), \<lparr>win = 4, trials = 5\<rparr>)]\<rparr>)))
     = [EmergencyMarginAction]
   \<and> run (\<lambda>run_nr i. \<lparr>in_environment = [], in_explore = 0.9, in_choice = 0, in_success = 0.5\<rparr>)
       (\<lambda>name. True) 1
       (snd (monitor_all
          \<lparr>config = default_config\<lparr>min_equity_margin := 6000\<rparr>, meta_log = []\<rparr>
          ((init_gie_mind [''OstroznyEngine''])
             \<lparr>knowledge := [((''OstroznyEngine'', 0, 0, 0), \<lparr>win = 4, trials = 5\<rparr>)]\<rparr>)))
     = (Some AttributeError,
        (init_gie_mind [''OstroznyEngine''])
          \<lparr>knowledge := [((''OstroznyEngine'', 0, 0, 0), \<lparr>win = 4, trials = 5\<rparr>)],
            stats := [(''OstroznyEngine'', \<lparr>win = 0, trials = 2\<rparr>)],
            curiosity := 0.85, hunger := 1,
            logged := [EmergencyMarginAction, Krok 1 1, EnvRead, MetaWybor ''OstroznyEngine'']\<rparr>)"
  unfolding guardian_emergency_example
  by (simp add: run_def numeral_3_eq_3 run_step_def choose_engine_def suggest_def
        candidates_def qualifies_def fingerprint_def dict_get_def round1_def
        round_half_even_def eff_of_def get_effectiveness_def py_truediv_def
        within_tolerance_refl
        receive_feedback_def update_internal_state_def init_gie_mind_def Let_def)

end
